theory Spec2Isabelle
  imports Main "HOL-Library.AList" "HOL-Library.Word"
begin

section \<open>Common conventions\<close>

text \<open>
  A JavaScript \<^verbatim>\<open>throw\<close> is a value of type \<open>error\<close> on the left of a sum. The
  constructor is the JavaScript error class, the string is the message (template
  placeholders of the source are left out of the message text).
  Counts, queue sizes and millisecond time stamps are JavaScript numbers in the source;
  here they are integers, which is what \<^verbatim>\<open>Date.now()\<close> and array lengths produce.
\<close>

datatype error =
    Error string
  | TypeError string
  | ReferenceError string
  | RangeError string

section \<open>The spinner: \<^verbatim>\<open>ClientQueue\<close> and \<^verbatim>\<open>GlobalSpinner\<close>\<close>

text \<open>
  The variant modelled is the one keyed by string client ids. The other variant of the file
  has the same \<^verbatim>\<open>ClientQueue.push\<close> and the same test in
  \<^verbatim>\<open>handleClientMessages\<close>; it only receives the client as an argument.
\<close>

record ('c, 'm) ClientQueue =
  client :: 'c
  queue :: "'m list"
  queueSize :: int
  throttleMs :: int
  handleTime :: "int option"

definition new_ClientQueue :: "'c \<Rightarrow> int \<Rightarrow> int \<Rightarrow> error + ('c, 'm) ClientQueue" where
  "new_ClientQueue c qs t =
     (if qs < 1
      then Inl (Error ''Unable to create client message queue with size - minimum is 1'')
      else Inr \<lparr>client = c, queue = [], queueSize = qs, throttleMs = t, handleTime = None\<rparr>)"

text \<open>\<^verbatim>\<open>Array.prototype.shift\<close>: removes the first element; nothing happens on \<open>[]\<close>.\<close>

definition shift :: "'a list \<Rightarrow> 'a list" where
  "shift xs = (case xs of [] \<Rightarrow> [] | _ # r \<Rightarrow> r)"

definition push :: "'m \<Rightarrow> ('c, 'm) ClientQueue \<Rightarrow> ('c, 'm) ClientQueue" where
  "push item q =
     (let q1 = q\<lparr>queue := queue q @ [item]\<rparr>
      in if int (length (queue q1)) > queueSize q1
         then q1\<lparr>queue := shift (queue q1)\<rparr>
         else q1)"

text \<open>
  \<^verbatim>\<open>handleClientMessages(time)\<close> returns the boolean of the source, the calls made to
  the client's \<^verbatim>\<open>_handleMsgQueue\<close> (each with the batch it was given) and the queue
  object afterwards.
\<close>

definition handleClientMessages ::
  "int \<Rightarrow> ('c, 'm) ClientQueue \<Rightarrow> bool \<times> ('c \<times> 'm list) list \<times> ('c, 'm) ClientQueue" where
  "handleClientMessages time q =
     (if (case handleTime q of None \<Rightarrow> True | Some h \<Rightarrow> time - h > throttleMs q)
      then (True, [(client q, queue q)], q\<lparr>handleTime := Some time, queue := []\<rparr>)
      else (False, [], q))"

text \<open>
  \<^verbatim>\<open>GlobalSpinner\<close>. \<open>clientCallQueue\<close> is a JavaScript \<^verbatim>\<open>Set\<close> (insertion
  ordered, no duplicates), \<open>clientQueueMap\<close> a JavaScript \<^verbatim>\<open>Map\<close> (insertion ordered;
  \<^verbatim>\<open>set\<close> on a present key replaces the value in place, which is \<open>AList.update\<close>).
  \<open>spinTimer\<close> is \<open>True\<close> when \<^verbatim>\<open>_spinTimer\<close> holds a timer and \<open>False\<close> when it is
  \<^verbatim>\<open>null\<close>. The spin period and the expected expiry time only feed the timer and are
  left out.
\<close>

record ('id, 'c, 'm) GlobalSpinner =
  spinTimer :: bool
  clientCallQueue :: "'id list"
  clientQueueMap :: "('id \<times> ('c, 'm) ClientQueue) list"

definition new_GlobalSpinner :: "('id, 'c, 'm) GlobalSpinner" where
  "new_GlobalSpinner = \<lparr>spinTimer = False, clientCallQueue = [], clientQueueMap = []\<rparr>"

definition set_add :: "'a \<Rightarrow> 'a list \<Rightarrow> 'a list" where
  "set_add x xs = (if x \<in> set xs then xs else xs @ [x])"

definition new_Set :: "'a list \<Rightarrow> 'a list" where
  "new_Set xs = fold set_add xs []"

definition addClient ::
  "'c \<Rightarrow> 'id \<Rightarrow> int \<Rightarrow> int \<Rightarrow> ('id, 'c, 'm) GlobalSpinner \<Rightarrow> error + ('id, 'c, 'm) GlobalSpinner" where
  "addClient c clientId qs t s =
     (if qs > 0
      then (case new_ClientQueue c qs t of
              Inl e \<Rightarrow> Inl e
            | Inr q \<Rightarrow> Inr (s\<lparr>clientQueueMap := AList.update clientId q (clientQueueMap s)\<rparr>))
      else Inr s)"

definition queueMessage ::
  "'id \<Rightarrow> 'm \<Rightarrow> ('id, 'c, 'm) GlobalSpinner \<Rightarrow> error + ('id, 'c, 'm) GlobalSpinner" where
  "queueMessage clientId message s =
     (case map_of (clientQueueMap s) clientId of
        None \<Rightarrow> Inl (Error ''Unable to queue message for unknown client'')
      | Some clientQueue \<Rightarrow>
          Inr (s\<lparr>clientQueueMap := AList.update clientId (push message clientQueue) (clientQueueMap s)\<rparr>))"

definition setTimer :: "('id, 'c, 'm) GlobalSpinner \<Rightarrow> ('id, 'c, 'm) GlobalSpinner" where
  "setTimer s = (if \<not> spinTimer s then s\<lparr>spinTimer := True\<rparr> else s)"

definition ping ::
  "'id \<Rightarrow> 'm \<Rightarrow> ('id, 'c, 'm) GlobalSpinner \<Rightarrow> error + ('id, 'c, 'm) GlobalSpinner" where
  "ping clientId msg s =
     (case queueMessage clientId msg s of
        Inl e \<Rightarrow> Inl e
      | Inr s1 \<Rightarrow> Inr (setTimer (s1\<lparr>clientCallQueue := set_add clientId (clientCallQueue s1)\<rparr>)))"

definition disconnect :: "'id \<Rightarrow> ('id, 'c, 'm) GlobalSpinner \<Rightarrow> ('id, 'c, 'm) GlobalSpinner" where
  "disconnect clientId s =
     s\<lparr>clientCallQueue := removeAll clientId (clientCallQueue s),
       clientQueueMap := AList.delete clientId (clientQueueMap s)\<rparr>"

definition getClientsWithQueuedMessages :: "('id, 'c, 'm) GlobalSpinner \<Rightarrow> error + unit" where
  "getClientsWithQueuedMessages s =
     (case find (\<lambda>(clientId, v). length (queue v) > 0 \<and> clientId \<notin> set (clientCallQueue s))
                (clientQueueMap s) of
        Some _ \<Rightarrow> Inl (Error ''Client has queued messages but is not in call list!'')
      | None \<Rightarrow> Inr ())"

text \<open>
  The \<^verbatim>\<open>forEach\<close> of \<^verbatim>\<open>_handleQueue\<close> over the call set. The accumulator is the
  queue map (its queue objects are mutated by \<^verbatim>\<open>handleClientMessages\<close>), the calls
  made to clients so far, and \<^verbatim>\<open>keepOnQueue\<close>. A client id of the call set without
  a queue makes the method call on \<^verbatim>\<open>undefined\<close> throw.
\<close>

fun handleClients ::
  "int \<Rightarrow> 'id list \<Rightarrow>
   ('id \<times> ('c, 'm) ClientQueue) list \<times> ('c \<times> 'm list) list \<times> 'id list \<Rightarrow>
   error + ('id \<times> ('c, 'm) ClientQueue) list \<times> ('c \<times> 'm list) list \<times> 'id list" where
  "handleClients now [] acc = Inr acc"
| "handleClients now (clientId # rest) (m, calls, keepOnQueue) =
     (case map_of m clientId of
        None \<Rightarrow> Inl (TypeError ''Cannot read property handleClientMessages of undefined'')
      | Some clientQueue \<Rightarrow>
          (case handleClientMessages now clientQueue of
             (handled, cs, clientQueue') \<Rightarrow>
               handleClients now rest
                 (AList.update clientId clientQueue' m, calls @ cs,
                  if \<not> handled then keepOnQueue @ [clientId] else keepOnQueue)))"

definition handleQueue ::
  "int \<Rightarrow> ('id, 'c, 'm) GlobalSpinner \<Rightarrow> error + ('c \<times> 'm list) list \<times> ('id, 'c, 'm) GlobalSpinner" where
  "handleQueue now s =
     (case handleClients now (clientCallQueue s) (clientQueueMap s, [], []) of
        Inl e \<Rightarrow> Inl e
      | Inr (m, calls, keepOnQueue) \<Rightarrow>
          (let s1 = s\<lparr>clientQueueMap := m, spinTimer := False\<rparr>
           in case getClientsWithQueuedMessages s1 of
                Inl e \<Rightarrow> Inl e
              | Inr _ \<Rightarrow>
                  (let s2 = (if length keepOnQueue > 0
                             then s1\<lparr>clientCallQueue := new_Set keepOnQueue\<rparr>
                             else s1\<lparr>clientCallQueue := []\<rparr>)
                   in Inr (calls, if length (clientCallQueue s2) > 0 then setTimer s2 else s2))))"

text \<open>
  The eligibility rule in the words of the specification ("eligible iff
  now - lastDispatchTime >= throttleMs, or lastDispatchTime is unset"), to be compared
  with the test of \<^verbatim>\<open>handleClientMessages\<close>.
\<close>

definition spec_eligible :: "int \<Rightarrow> ('c, 'm) ClientQueue \<Rightarrow> bool" where
  "spec_eligible now q = (case handleTime q of None \<Rightarrow> True | Some h \<Rightarrow> now - h \<ge> throttleMs q)"

text \<open>
  The calls that publishers and subscribers make on the spinner, and a history of such
  calls. A \<^verbatim>\<open>ping\<close> that throws has changed nothing (\<^verbatim>\<open>_queueMessage\<close> throws
  before the first assignment), so the spinner is then as it was.
\<close>

datatype ('id, 'c, 'm) spinner_op =
    AddClient 'c 'id int int
  | Ping 'id 'm
  | Disconnect 'id

fun applyOp ::
  "('id, 'c, 'm) spinner_op \<Rightarrow> ('id, 'c, 'm) GlobalSpinner \<Rightarrow> ('id, 'c, 'm) GlobalSpinner" where
  "applyOp (AddClient c clientId qs t) s =
     (case addClient c clientId qs t s of Inl _ \<Rightarrow> s | Inr s1 \<Rightarrow> s1)"
| "applyOp (Ping clientId msg) s = (case ping clientId msg s of Inl _ \<Rightarrow> s | Inr s1 \<Rightarrow> s1)"
| "applyOp (Disconnect clientId) s = disconnect clientId s"

fun registers :: "'id \<Rightarrow> ('id, 'c, 'm) spinner_op \<Rightarrow> bool" where
  "registers clientId (AddClient c clientId1 qs t) = (clientId1 = clientId \<and> qs > 0)"
| "registers clientId (Ping clientId1 msg) = False"
| "registers clientId (Disconnect clientId1) = False"

section \<open>The master RPC client: \<^verbatim>\<open>XmlrpcClient\<close>\<close>

text \<open>
  An error object of the transport carries an optional \<^verbatim>\<open>code\<close>. A response is the
  triple \<^verbatim>\<open>[code, statusMessage, value]\<close>; only its first element is inspected.
  \<open>'x\<close> is the type of XML-RPC values (call parameters and returned values).
\<close>

datatype js_error = JsError (code: "string option")

record 'x response =
  status :: int
  statusMessage :: string
  val :: 'x

definition CONNECTION_REFUSED :: string where
  "CONNECTION_REFUSED = ''ECONNREFUSED''"

definition TRY_AGAIN_LIST :: "nat list" where
  "TRY_AGAIN_LIST = [1, 2, 2, 4, 4, 4, 4, 8, 8, 8, 8, 16, 32, 64, 128, 256, 512, 1000]"

text \<open>
  A queued call (\<open>methodName\<close> is the field \<^verbatim>\<open>method\<close> of the source). The
  \<^verbatim>\<open>resolve\<close> and \<^verbatim>\<open>reject\<close> callbacks of the source are the effects
  \<open>CallResolved\<close> and \<open>CallRejected\<close> on that call. Log lines are left out, except the
  warning of \<^verbatim>\<open>_tryExecuteCall\<close> on an empty queue.
\<close>

record 'x XmlrpcCall =
  methodName :: string
  data :: 'x

text \<open>What the callback of \<^verbatim>\<open>client.methodCall\<close> receives: an error or a response.\<close>

datatype 'x transport_result = TransportError js_error | TransportResponse "'x response"

datatype 'x settled = Fulfilled "'x response" | Rejected "js_error option"

definition XmlrpcCall_call :: "'x transport_result \<Rightarrow> 'x settled" where
  "XmlrpcCall_call r =
     (case r of
        TransportError err \<Rightarrow> Rejected (Some err)
      | TransportResponse resp \<Rightarrow> (if status resp \<noteq> 1 then Rejected None else Fulfilled resp))"

text \<open>
  Indexing a JavaScript array: \<^verbatim>\<open>undefined\<close> (here \<open>None\<close>) out of range. A timer
  records the delay it was created with; \<open>timeoutId = None\<close> is \<^verbatim>\<open>null\<close>.
\<close>

definition js_index :: "'a list \<Rightarrow> nat \<Rightarrow> 'a option" where
  "js_index xs i = (if i < length xs then Some (xs ! i) else None)"

datatype timer = Timer (delay: "nat option")

record 'x XmlrpcClient =
  callQueue :: "'x XmlrpcCall list"
  timeout :: nat
  timeoutId :: "timer option"

datatype 'x xmlrpc_effect =
    MethodCall "'x XmlrpcCall"
  | CallResolved "'x XmlrpcCall" "'x response"
  | CallRejected "'x XmlrpcCall" "js_error option"
  | SetTimeout "nat option"
  | Warn string

definition new_XmlrpcClient :: "'x XmlrpcClient" where
  "new_XmlrpcClient = \<lparr>callQueue = [], timeout = 0, timeoutId = None\<rparr>"

text \<open>
  \<^verbatim>\<open>_tryExecuteCall\<close> starts the head call; the handlers it attaches to the call's
  promise are \<open>callSettled\<close> below, run when the transport answers.
\<close>

definition tryExecuteCall :: "'x XmlrpcClient \<Rightarrow> 'x XmlrpcClient \<times> 'x xmlrpc_effect list" where
  "tryExecuteCall s =
     (case callQueue s of
        [] \<Rightarrow> (s, [Warn ''Tried executing xmlprc call on empty queue''])
      | call # _ \<Rightarrow> (s, [MethodCall call]))"

definition shiftQueue :: "'x XmlrpcClient \<Rightarrow> 'x XmlrpcClient" where
  "shiftQueue s = s\<lparr>callQueue := shift (callQueue s)\<rparr>"

definition resetTimeout :: "'x XmlrpcClient \<Rightarrow> 'x XmlrpcClient" where
  "resetTimeout s = s\<lparr>timeout := 0, timeoutId := None\<rparr>"

definition scheduleTryAgain :: "'x XmlrpcClient \<Rightarrow> 'x XmlrpcClient \<times> 'x xmlrpc_effect list" where
  "scheduleTryAgain s =
     (let t = js_index TRY_AGAIN_LIST (timeout s);
          s1 = (if timeout s + 1 < length TRY_AGAIN_LIST then s\<lparr>timeout := timeout s + 1\<rparr> else s)
      in (s1\<lparr>timeoutId := Some (Timer t)\<rparr>, [SetTimeout t]))"

text \<open>The test \<^verbatim>\<open>err && err.code === CONNECTION_REFUSED\<close> of the failure handler.\<close>

definition connectionRefused :: "js_error option \<Rightarrow> bool" where
  "connectionRefused err = (case err of None \<Rightarrow> False | Some e \<Rightarrow> code e = Some CONNECTION_REFUSED)"

text \<open>
  The promise chain of \<^verbatim>\<open>_tryExecuteCall\<close> for the call \<open>call\<close> it started:
  the success handler, the failure handler, then the common continuation.
\<close>

definition callSettled ::
  "'x XmlrpcCall \<Rightarrow> 'x settled \<Rightarrow> 'x XmlrpcClient \<Rightarrow> 'x XmlrpcClient \<times> 'x xmlrpc_effect list" where
  "callSettled call out s =
     (let (s1, e1) =
            (case out of
               Fulfilled resp \<Rightarrow> (resetTimeout (shiftQueue s), [CallResolved call resp])
             | Rejected err \<Rightarrow>
                 (if connectionRefused err
                  then scheduleTryAgain s
                  else (resetTimeout (shiftQueue s), [CallRejected call err])))
      in if timeoutId s1 = None \<and> length (callQueue s1) > 0
         then (let (s2, e2) = tryExecuteCall s1 in (s2, e1 @ e2))
         else (s1, e1))"

definition xmlrpc_call ::
  "string \<Rightarrow> 'x \<Rightarrow> 'x XmlrpcClient \<Rightarrow> 'x XmlrpcClient \<times> 'x xmlrpc_effect list" where
  "xmlrpc_call m d s =
     (let newCall = \<lparr>methodName = m, data = d\<rparr>;
          numCalls = length (callQueue s);
          s1 = s\<lparr>callQueue := callQueue s @ [newCall]\<rparr>
      in if numCalls = 0 then tryExecuteCall s1 else (s1, []))"

text \<open>
  \<open>k\<close> consecutive settlements \<open>out\<close> of the call \<open>call\<close>, each followed by the
  firing of the retry timer (which runs \<^verbatim>\<open>_tryExecuteCall\<close> again). The result is
  the client afterwards and, per settlement, the effects of its handlers.
\<close>

fun consecutive ::
  "nat \<Rightarrow> 'x XmlrpcCall \<Rightarrow> 'x settled \<Rightarrow> 'x XmlrpcClient \<Rightarrow>
   'x XmlrpcClient \<times> 'x xmlrpc_effect list list" where
  "consecutive 0 call out s = (s, [])"
| "consecutive (Suc k) call out s =
     (let (s1, e1) = callSettled call out s;
          (s2, e2) = (tryExecuteCall s1 :: 'x XmlrpcClient \<times> 'x xmlrpc_effect list);
          (s3, es) = consecutive k call out s2
      in (s3, e1 # es))"

definition refused :: "'x settled" where
  "refused = Rejected (Some (JsError (Some ''ECONNREFUSED'')))"

section \<open>The service client: \<^verbatim>\<open>ServiceClient\<close>\<close>

text \<open>
  A \<^verbatim>\<open>ServiceCall\<close> holds the request; its \<^verbatim>\<open>reject\<close> callback is the effect
  \<open>RejectCall\<close> with the value passed to it (\<open>None\<close> for a call without argument).
  \<^verbatim>\<open>_executeCall\<close> removes the head call, marks the client as calling and starts the
  asynchronous chain, either with a master lookup or on the cached socket of a persistent
  client. In \<^verbatim>\<open>call\<close> the queue has just received the new call when
  \<^verbatim>\<open>shift\<close> runs, so \<^verbatim>\<open>shift\<close> finds a call. \<open>NextTick\<close> is
  \<^verbatim>\<open>process.nextTick(this._executeCall.bind(this))\<close>.
\<close>

record 'r ServiceCall =
  request :: 'r

datatype 'r service_effect =
    RejectCall "'r ServiceCall" "string option"
  | LookupService "'r ServiceCall"
  | UseCachedSocket "'r ServiceCall"
  | WarnService string
  | NextTick

record 'r ServiceClient =
  persist :: bool
  maxQueueLength :: int
  calling :: bool
  serviceClient :: "nat option"
  serviceCallQueue :: "'r ServiceCall list"

text \<open>
  The constructor: \<^verbatim>\<open>options.queueLength || -1\<close> turns a missing or zero queue length
  into \<open>-1\<close>.
\<close>

definition new_ServiceClient :: "bool \<Rightarrow> int option \<Rightarrow> 'r ServiceClient" where
  "new_ServiceClient persistOpt queueLength =
     \<lparr>persist = persistOpt,
      maxQueueLength = (case queueLength of None \<Rightarrow> -1 | Some n \<Rightarrow> if n = 0 then -1 else n),
      calling = False, serviceClient = None, serviceCallQueue = []\<rparr>"

definition executeCall :: "'r ServiceClient \<Rightarrow> 'r ServiceClient \<times> 'r service_effect list" where
  "executeCall s =
     (case serviceCallQueue s of
        [] \<Rightarrow> (s, [WarnService ''Tried executing service call on empty queue''])
      | call # rest \<Rightarrow>
          (s\<lparr>serviceCallQueue := rest, calling := True\<rparr>,
           if \<not> persist s \<or> serviceClient s = None then [LookupService call]
           else [UseCachedSocket call]))"

definition serviceCall :: "'r \<Rightarrow> 'r ServiceClient \<Rightarrow> 'r ServiceClient \<times> 'r service_effect list" where
  "serviceCall req s =
     (let newCall = \<lparr>request = req\<rparr>;
          s1 = s\<lparr>serviceCallQueue := serviceCallQueue s @ [newCall]\<rparr>;
          (s2, e2) =
            (if maxQueueLength s1 > 0 \<and> int (length (serviceCallQueue s1)) > maxQueueLength s1
             then (case serviceCallQueue s1 of
                     [] \<Rightarrow> (s1, [])
                   | oldCall # rest \<Rightarrow> (s1\<lparr>serviceCallQueue := rest\<rparr>, [RejectCall oldCall None]))
             else (s1, []))
      in if length (serviceCallQueue s2) = 1
         then (let (s3, e3) = executeCall s2 in (s3, e2 @ e3))
         else (s2, e2))"

definition scheduleNextCall :: "'r ServiceClient \<Rightarrow> 'r service_effect list" where
  "scheduleNextCall s = (if length (serviceCallQueue s) > 0 then [NextTick] else [])"

text \<open>
  What happens to a service client, one event at a time: a \<^verbatim>\<open>call(request)\<close>; the
  end of the chain started by \<^verbatim>\<open>_executeCall\<close> (both of its last handlers set
  \<^verbatim>\<open>_calling = false\<close> and run \<^verbatim>\<open>_scheduleNextCall\<close>); the tick that runs
  \<^verbatim>\<open>_executeCall\<close>; \<^verbatim>\<open>_connectToService\<close> keeping the new socket of a persistent
  client; the \<^verbatim>\<open>end\<close> of that socket; and \<^verbatim>\<open>close()\<close>. A history is a list of
  events, applied in order.
\<close>

datatype 'r service_event =
    CallEvent 'r
  | SettledEvent
  | TickEvent
  | ConnectEvent nat
  | SocketEndEvent
  | CloseEvent

fun serviceEvent ::
  "'r service_event \<Rightarrow> 'r ServiceClient \<Rightarrow> 'r ServiceClient \<times> 'r service_effect list" where
  "serviceEvent (CallEvent req) s = serviceCall req s"
| "serviceEvent SettledEvent s = (let s1 = s\<lparr>calling := False\<rparr> in (s1, scheduleNextCall s1))"
| "serviceEvent TickEvent s = executeCall s"
| "serviceEvent (ConnectEvent sock) s = ((if persist s then s\<lparr>serviceClient := Some sock\<rparr> else s), [])"
| "serviceEvent SocketEndEvent s = ((if persist s then s\<lparr>serviceClient := None\<rparr> else s), [])"
| "serviceEvent CloseEvent s = ((if \<not> calling s then s\<lparr>serviceClient := None\<rparr> else s), [])"

fun serviceEvents ::
  "'r service_event list \<Rightarrow> 'r ServiceClient \<Rightarrow> 'r ServiceClient \<times> 'r service_effect list" where
  "serviceEvents [] s = (s, [])"
| "serviceEvents (ev # evs) s =
     (let (s1, e1) = serviceEvent ev s;
          (s2, e2) = serviceEvents evs s1
      in (s2, e1 @ e2))"

definition isReject :: "'r service_effect \<Rightarrow> bool" where
  "isReject e = (case e of RejectCall _ _ \<Rightarrow> True | _ \<Rightarrow> False)"

text \<open>The calls started, in order: the lookups and the uses of the cached socket.\<close>

definition started :: "'r service_effect list \<Rightarrow> 'r ServiceCall list" where
  "started es =
     concat (map (\<lambda>e. case e of LookupService c \<Rightarrow> [c] | UseCachedSocket c \<Rightarrow> [c] | _ \<Rightarrow> []) es)"

section \<open>Buffers and the wire codec\<close>

text \<open>
  A \<^verbatim>\<open>Buffer\<close> is a list of bytes of fixed length. Node leaves the contents of
  \<^verbatim>\<open>new Buffer(n)\<close> unspecified; the model fills it with zeros. A write outside the
  buffer throws. Strings are byte strings (ASCII, as the connection headers are), so the
  \<^verbatim>\<open>length\<close> of a string is its number of bytes.
\<close>

type_synonym byte = "8 word"
type_synonym buffer = "byte list"

definition bindE :: "error + 'a \<Rightarrow> ('a \<Rightarrow> error + 'b) \<Rightarrow> error + 'b" where
  "bindE m f = (case m of Inl e \<Rightarrow> Inl e | Inr x \<Rightarrow> f x)"

definition new_Buffer :: "nat \<Rightarrow> buffer" where
  "new_Buffer n = replicate n 0"

definition buf_write :: "buffer \<Rightarrow> nat \<Rightarrow> byte list \<Rightarrow> error + buffer" where
  "buf_write buf off bs =
     (if off + length bs \<le> length buf
      then Inr (take off buf @ bs @ drop (off + length bs) buf)
      else Inl (RangeError ''Index out of range''))"

definition byte_of_char :: "char \<Rightarrow> byte" where
  "byte_of_char c = word_of_nat (of_char c)"

definition char_of_byte :: "byte \<Rightarrow> char" where
  "char_of_byte b = char_of (unat b)"

definition u32_bytes :: "nat \<Rightarrow> byte list" where
  "u32_bytes n =
     [word_of_nat n, word_of_nat (n div 256), word_of_nat (n div 65536), word_of_nat (n div 16777216)]"

definition u32_of_bytes :: "byte list \<Rightarrow> nat" where
  "u32_of_bytes bs =
     (case bs of
        b0 # b1 # b2 # b3 # _ \<Rightarrow> unat b0 + 256 * unat b1 + 65536 * unat b2 + 16777216 * unat b3
      | _ \<Rightarrow> 0)"

text \<open>
  Modelled from the spec: the primitive serializers and deserializers of the package
  \<^verbatim>\<open>ros_msg_utils\<close> (\<^verbatim>\<open>Serialize.uint8\<close>, \<^verbatim>\<open>Serialize.uint32\<close>,
  \<^verbatim>\<open>Serialize.string\<close>, \<^verbatim>\<open>Deserialize.string\<close>), which are not among the sources.
  The specification fixes them: little-endian fixed-width primitives; a string is its
  \<open>u32\<close> little-endian length followed by the raw bytes; serializers return the offset
  after what they wrote, deserializers advance the caller's cursor. Lengths of JavaScript
  strings and buffers are below \<open>2^32\<close>, so the length conversion never overflows.
\<close>

definition Serialize_uint8 :: "nat \<Rightarrow> buffer \<Rightarrow> nat \<Rightarrow> error + buffer \<times> nat" where
  "Serialize_uint8 v buf off = bindE (buf_write buf off [word_of_nat v]) (\<lambda>b. Inr (b, off + 1))"

definition Serialize_uint32 :: "nat \<Rightarrow> buffer \<Rightarrow> nat \<Rightarrow> error + buffer \<times> nat" where
  "Serialize_uint32 v buf off = bindE (buf_write buf off (u32_bytes v)) (\<lambda>b. Inr (b, off + 4))"

definition Serialize_string :: "string \<Rightarrow> buffer \<Rightarrow> nat \<Rightarrow> error + buffer \<times> nat" where
  "Serialize_string str buf off =
     bindE (Serialize_uint32 (length str) buf off)
       (\<lambda>(b, off1). bindE (buf_write b off1 (map byte_of_char str))
          (\<lambda>b1. Inr (b1, off1 + length str)))"

definition Deserialize_string :: "buffer \<Rightarrow> nat \<Rightarrow> error + string \<times> nat" where
  "Deserialize_string buf off =
     (if off + 4 \<le> length buf
      then (let len = u32_of_bytes (drop off buf)
            in Inr (map char_of_byte (take len (drop (off + 4) buf)), off + 4 + len))
      else Inl (RangeError ''Index out of range''))"

text \<open>
  Modelled from the spec: the typed-message contract of the generated message classes
  (\<^verbatim>\<open>getMessageSize\<close>, \<^verbatim>\<open>serialize\<close>, \<^verbatim>\<open>deserialize\<close>, \<^verbatim>\<open>md5sum\<close>,
  \<^verbatim>\<open>Resolve\<close>), supplied by the message generator. \<open>wire\<close> gives the bytes that
  \<^verbatim>\<open>serialize\<close> writes for a value, or the error it throws (the specification
  requires it to reject a fixed-length array of the wrong length);
  \<^verbatim>\<open>serialize(value, buffer, offset)\<close> writes them at the offset.
  \<^verbatim>\<open>deserialize\<close> reads a value from a buffer, or throws.
\<close>

record 'a MessageClass =
  md5sum :: string
  getMessageSize :: "'a \<Rightarrow> nat"
  wire :: "'a \<Rightarrow> error + byte list"
  deserialize :: "buffer \<Rightarrow> error + 'a"
  Resolve :: "'a \<Rightarrow> 'a"

definition MessageClass_serialize :: "'a MessageClass \<Rightarrow> 'a \<Rightarrow> buffer \<Rightarrow> nat \<Rightarrow> error + buffer" where
  "MessageClass_serialize mc v buf off = bindE (wire mc v) (\<lambda>bs. buf_write buf off bs)"

section \<open>\<^verbatim>\<open>TcprosUtils\<close>\<close>

definition callerIdPrefix :: string where "callerIdPrefix = ''callerid=''"
definition md5Prefix :: string where "md5Prefix = ''md5sum=''"
definition topicPrefix :: string where "topicPrefix = ''topic=''"
definition servicePrefix :: string where "servicePrefix = ''service=''"
definition typePrefix :: string where "typePrefix = ''type=''"
definition latchingPrefix :: string where "latchingPrefix = ''latching=''"
definition persistentPrefix :: string where "persistentPrefix = ''persistent=''"

text \<open>The second \<^verbatim>\<open>forEach\<close> of \<^verbatim>\<open>serializeStringFields\<close>.\<close>

fun writeFields :: "string list \<Rightarrow> buffer \<Rightarrow> nat \<Rightarrow> error + buffer \<times> nat" where
  "writeFields [] buf off = Inr (buf, off)"
| "writeFields (field # rest) buf off =
     bindE (Serialize_string field buf off) (\<lambda>(b, off1). writeFields rest b off1)"

definition serializeStringFields :: "string list \<Rightarrow> error + buffer" where
  "serializeStringFields flds =
     (let len = fold (\<lambda>field l. l + (length field + 4)) flds 0;
          buf = new_Buffer (4 + len)
      in bindE (Serialize_uint32 len buf 0)
           (\<lambda>(b, off). bindE (writeFields flds b off) (\<lambda>(b1, _). Inr b1)))"

text \<open>String concatenation with a boolean, as in \<^verbatim>\<open>latchingPrefix + latching\<close>.\<close>

definition js_string_of_bool :: "bool \<Rightarrow> string" where
  "js_string_of_bool b = (if b then ''true'' else ''false'')"

definition createSubHeader :: "string \<Rightarrow> string \<Rightarrow> string \<Rightarrow> string \<Rightarrow> error + buffer" where
  "createSubHeader callerId md5 topic typ =
     serializeStringFields
       [callerIdPrefix @ callerId, md5Prefix @ md5, topicPrefix @ topic, typePrefix @ typ]"

definition createPubHeader :: "string \<Rightarrow> string \<Rightarrow> string \<Rightarrow> bool \<Rightarrow> error + buffer" where
  "createPubHeader callerId md5 typ latch =
     serializeStringFields
       [callerIdPrefix @ callerId, md5Prefix @ md5, typePrefix @ typ,
        latchingPrefix @ js_string_of_bool latch]"

definition serializeString :: "string \<Rightarrow> error + buffer" where
  "serializeString str =
     bindE (Serialize_string str (new_Buffer (length str + 4)) 0) (\<lambda>(b, _). Inr b)"

text \<open>
  A parsed connection header is a JavaScript object with string values, created by an
  object literal: a map from the names of its own properties to strings.

  \<^verbatim>\<open>validateSubHeader\<close> asks \<^verbatim>\<open>header.hasOwnProperty(...)\<close>. The method is looked
  up on the header first: a header with a property of its own named
  \<^verbatim>\<open>hasOwnProperty\<close> holds a string there, and calling a string throws a
  \<^verbatim>\<open>TypeError\<close>. Otherwise the method is the one of \<^verbatim>\<open>Object.prototype\<close>, which
  tests the header's own properties.
\<close>

type_synonym header = "string \<rightharpoonup> string"

definition validateSubHeader ::
  "header \<Rightarrow> string \<Rightarrow> string \<Rightarrow> string \<Rightarrow> error + buffer option" where
  "validateSubHeader hdr topic typ md5 =
     (if hdr ''hasOwnProperty'' \<noteq> None
      then Inl (TypeError ''header.hasOwnProperty is not a function'')
      else
     (case hdr ''topic'' of
        None \<Rightarrow> map_sum id Some (serializeString ''Connection header missing expected field [topic]'')
      | Some htopic \<Rightarrow>
     (case hdr ''type'' of
        None \<Rightarrow> map_sum id Some (serializeString ''Connection header missing expected field [type]'')
      | Some htype \<Rightarrow>
     (case hdr ''md5sum'' of
        None \<Rightarrow> map_sum id Some (serializeString ''Connection header missing expected field [md5sum]'')
      | Some hmd5 \<Rightarrow>
          if htopic \<noteq> topic
          then map_sum id Some (serializeString
                 (''Got incorrect topic ['' @ htopic @ ''] expected ['' @ topic @ '']''))
          else if htype \<noteq> typ \<and> htype \<noteq> ''*''
          then map_sum id Some (serializeString
                 (''Got incorrect message type ['' @ htype @ ''] expected ['' @ typ @ '']''))
          else if hmd5 \<noteq> md5 \<and> hmd5 \<noteq> ''*''
          then map_sum id Some (serializeString
                 (''Got incorrect md5sum ['' @ hmd5 @ ''] expected ['' @ md5 @ '']''))
          else Inr None))))"

definition serializeMessage :: "'a MessageClass \<Rightarrow> 'a \<Rightarrow> bool \<Rightarrow> error + buffer" where
  "serializeMessage mc message prependMessageLength =
     (let msgSize = getMessageSize mc message
      in if prependMessageLength
         then bindE (Serialize_uint32 msgSize (new_Buffer (msgSize + 4)) 0)
                (\<lambda>(msgBuffer, off). MessageClass_serialize mc message msgBuffer off)
         else MessageClass_serialize mc message (new_Buffer msgSize) 0)"

definition serializeServiceResponse ::
  "'a MessageClass \<Rightarrow> 'a \<Rightarrow> bool \<Rightarrow> bool \<Rightarrow> error + buffer" where
  "serializeServiceResponse rc resp success prependResponseInfo =
     (if prependResponseInfo
      then (if success
            then (let respSize = getMessageSize rc resp;
                      responseBuffer = new_Buffer (respSize + 5)
                  in bindE (Serialize_uint8 1 responseBuffer 0)
                       (\<lambda>(b1, _). bindE (Serialize_uint32 respSize b1 1)
                          (\<lambda>(b2, _). MessageClass_serialize rc resp b2 5)))
            else (let errorMessage = ''Unable to handle service call'';
                      errLen = length errorMessage;
                      responseBuffer = new_Buffer (5 + errLen)
                  in bindE (Serialize_uint8 0 responseBuffer 0)
                       (\<lambda>(b1, _). bindE (Serialize_string errorMessage b1 1)
                          (\<lambda>(b2, _). Inr b2))))
      else Inr (new_Buffer (getMessageSize rc resp)))"

text \<open>
  The wire format of a string in the words of the specification: its \<open>u32\<close>
  little-endian length followed by its bytes.
\<close>

definition encString :: "string \<Rightarrow> byte list" where
  "encString s = u32_bytes (length s) @ map byte_of_char s"

section \<open>\<^verbatim>\<open>Publisher\<close>\<close>

text \<open>
  Modelled from the spec: \<^verbatim>\<open>Serialize\<close> of \<^verbatim>\<open>utils/serialization_utils.js\<close>,
  which is not among the sources. It frames a block for the peer protocol: the \<open>u32\<close>
  little-endian length of the block followed by the block.
\<close>

definition Serialize :: "buffer \<Rightarrow> buffer" where
  "Serialize buf = u32_bytes (length buf) @ buf"

text \<open>
  A socket is identified by its \<^verbatim>\<open>name\<close>. What the publisher does to sockets and the
  events it emits are effects, in the order of the source; of the log lines only the
  errors are kept. \<open>subClients\<close> is a JavaScript object used as a dictionary from socket
  names to sockets (insertion ordered).
\<close>

type_synonym socket = string

datatype socket_effect =
    SockWrite socket buffer
  | SockEnd socket buffer
  | SockSetNoDelay socket bool
  | SockOn socket string
  | Emit string
  | LogError string

record 'a Publisher =
  pub_topic :: string
  pub_type :: string
  latching :: bool
  tcpNoDelay :: bool
  pub_queueSize :: int
  pub_throttleMs :: int
  pub_resolve :: bool
  lastSentMsg :: "buffer option"
  nodeName :: string
  subClients :: "(string \<times> socket) list"
  messageHandler :: "'a MessageClass"

definition Publisher_getSpinnerId :: "'a Publisher \<Rightarrow> string" where
  "Publisher_getSpinnerId p = ''Publisher://'' @ pub_topic p"

text \<open>
  One round of the \<^verbatim>\<open>forEach\<close> in \<^verbatim>\<open>_handleMsgQueue\<close>: the message is
  resolved if the publisher was created with \<^verbatim>\<open>resolve\<close>, serialized once and written
  to every subscriber socket; an exception of the serialization is caught and logged, and
  the message is skipped.
\<close>

definition resolveMsg :: "'a Publisher \<Rightarrow> 'a \<Rightarrow> 'a" where
  "resolveMsg p msg = (if pub_resolve p then Resolve (messageHandler p) msg else msg)"

definition publishOne :: "'a \<Rightarrow> 'a Publisher \<Rightarrow> 'a Publisher \<times> socket_effect list" where
  "publishOne msg p =
     (let msg1 = resolveMsg p msg
      in case serializeMessage (messageHandler p) msg1 True of
           Inl err \<Rightarrow> (p, [LogError ''Error when publishing message on topic''])
         | Inr serializedMsg \<Rightarrow>
             ((if latching p then p\<lparr>lastSentMsg := Some serializedMsg\<rparr> else p),
              map (\<lambda>(name, sock). SockWrite sock serializedMsg) (subClients p)))"

fun Publisher_handleMsgQueue :: "'a list \<Rightarrow> 'a Publisher \<Rightarrow> 'a Publisher \<times> socket_effect list" where
  "Publisher_handleMsgQueue [] p = (p, [])"
| "Publisher_handleMsgQueue (msg # msgQueue) p =
     (let (p1, e1) = publishOne msg p;
          (p2, e2) = Publisher_handleMsgQueue msgQueue p1
      in (p2, e1 @ e2))"

text \<open>
  \<^verbatim>\<open>publish(msg, throttleMs)\<close>: \<open>None\<close> stands for a second argument that is not a
  number. The publisher is registered at the spinner under its spinner id.
\<close>

definition publish ::
  "'a \<Rightarrow> int option \<Rightarrow> 'a Publisher \<times> (string, 'c, 'a) GlobalSpinner \<Rightarrow>
   error + ('a Publisher \<times> (string, 'c, 'a) GlobalSpinner) \<times> socket_effect list" where
  "publish msg throttleOpt ps =
     (let (p, spinner) = ps;
          throttle = (case throttleOpt of None \<Rightarrow> pub_throttleMs p | Some t \<Rightarrow> t)
      in if throttle < 0
         then (let (p1, e1) = Publisher_handleMsgQueue [msg] p in Inr ((p1, spinner), e1))
         else bindE (ping (Publisher_getSpinnerId p) msg spinner)
                (\<lambda>spinner1. Inr ((p, spinner1), [])))"

definition handleSubscriberConnection ::
  "socket \<Rightarrow> header \<Rightarrow> 'a Publisher \<Rightarrow> error + 'a Publisher \<times> socket_effect list" where
  "handleSubscriberConnection subscriber hdr p =
     bindE (validateSubHeader hdr (pub_topic p) (pub_type p) (md5sum (messageHandler p)))
       (\<lambda>err. case err of
          Some e \<Rightarrow>
            Inr (p, [LogError ''Unable to validate subscriber connection header'',
                     SockEnd subscriber (Serialize e)])
        | None \<Rightarrow>
            bindE (createPubHeader (nodeName p) (md5sum (messageHandler p)) (pub_type p) (latching p))
              (\<lambda>respHeader.
                 Inr (p\<lparr>subClients := AList.update subscriber subscriber (subClients p)\<rparr>,
                      [SockWrite subscriber respHeader]
                      @ (if tcpNoDelay p then [SockSetNoDelay subscriber True] else [])
                      @ [SockOn subscriber ''close'', SockOn subscriber ''end'',
                         SockOn subscriber ''error'']
                      @ (case lastSentMsg p of
                           None \<Rightarrow> []
                         | Some m \<Rightarrow> [SockWrite subscriber m])
                      @ [Emit ''connection''])))"

text \<open>The data written to one socket, in order.\<close>

definition writesTo :: "socket \<Rightarrow> socket_effect list \<Rightarrow> buffer list" where
  "writesTo sock es = concat (map (\<lambda>e. case e of SockWrite s b \<Rightarrow> if s = sock then [b] else [] | _ \<Rightarrow> []) es)"

text \<open>
  A message class and a publisher for the examples: \<^verbatim>\<open>std_msgs/String\<close> on the topic
  \<^verbatim>\<open>/chatter\<close>, latching, with no subscriber yet.
\<close>

definition StringMessage :: "string MessageClass" where
  "StringMessage =
     \<lparr>md5sum = ''992ce8a1687cec8c8bd883ec73ca41d1'',
      getMessageSize = (\<lambda>s. 4 + length s),
      wire = (\<lambda>s. Inr (encString s)),
      deserialize = (\<lambda>b. bindE (Deserialize_string b 0) (\<lambda>(s, _). Inr s)),
      Resolve = (\<lambda>s. s)\<rparr>"

definition chatterPublisher :: "string Publisher" where
  "chatterPublisher =
     \<lparr>pub_topic = ''/chatter'', pub_type = ''std_msgs/String'', latching = True,
      tcpNoDelay = False, pub_queueSize = 1, pub_throttleMs = 0, pub_resolve = False,
      lastSentMsg = None, nodeName = ''/talker'', subClients = [],
      messageHandler = StringMessage\<rparr>"

text \<open>
  The spinner of the node after the constructor of that publisher has registered it
  (\<^verbatim>\<open>addClient(this, this._getSpinnerId(), this._queueSize, this._throttleMs)\<close>); the
  client object is named by the node.
\<close>

definition chatterSpinner :: "(string, string, string) GlobalSpinner" where
  "chatterSpinner =
     (case addClient ''/talker'' (Publisher_getSpinnerId chatterPublisher)
             (pub_queueSize chatterPublisher) (pub_throttleMs chatterPublisher) new_GlobalSpinner of
        Inl _ \<Rightarrow> new_GlobalSpinner
      | Inr s \<Rightarrow> s)"

section \<open>Parsing connection headers\<close>

text \<open>
  \<^verbatim>\<open>TcprosUtils.deserializeString(buffer, true)\<close>: the string at the front of the
  buffer and the rest of the buffer (\<^verbatim>\<open>slice\<close> past the end gives the empty buffer).
\<close>

definition deserializeString :: "buffer \<Rightarrow> error + string \<times> buffer" where
  "deserializeString buf = bindE (Deserialize_string buf 0) (\<lambda>(v, off). Inr (v, drop off buf))"

text \<open>
  The match \<^verbatim>\<open>string.match(/^(\w+)=(.+)/m)\<close>. With the multiline flag \<^verbatim>\<open>^\<close> matches
  at the start of every line, and the first line of the form word characters, \<open>=\<close>, at
  least one more character gives the two groups. \<open>matchField\<close> returns the groups 1 and
  2 of the match, or \<open>None\<close> where \<^verbatim>\<open>match\<close> returns \<^verbatim>\<open>null\<close>. Only the ASCII line
  terminators are modelled.
\<close>

definition isWordChar :: "char \<Rightarrow> bool" where
  "isWordChar c =
     (let n = (of_char c :: nat)
      in (48 \<le> n \<and> n \<le> 57) \<or> (65 \<le> n \<and> n \<le> 90) \<or> (97 \<le> n \<and> n \<le> 122) \<or> n = 95)"

definition isLineTerminator :: "char \<Rightarrow> bool" where
  "isLineTerminator c = ((of_char c :: nat) = 10 \<or> (of_char c :: nat) = 13)"

fun js_lines :: "string \<Rightarrow> string list" where
  "js_lines [] = [[]]"
| "js_lines (c # cs) =
     (if isLineTerminator c then [] # js_lines cs
      else (case js_lines cs of [] \<Rightarrow> [[c]] | l # ls \<Rightarrow> (c # l) # ls))"

definition matchLine :: "string \<Rightarrow> (string \<times> string) option" where
  "matchLine l =
     (let k = takeWhile isWordChar l; r = dropWhile isWordChar l
      in case r of
           [] \<Rightarrow> None
         | c # v \<Rightarrow> if k \<noteq> [] \<and> c = CHR ''='' \<and> v \<noteq> [] then Some (k, v) else None)"

definition matchField :: "string \<Rightarrow> (string \<times> string) option" where
  "matchField s = (case List.map_filter matchLine (js_lines s) of [] \<Rightarrow> None | kv # _ \<Rightarrow> Some kv)"

text \<open>
  The assignment \<^verbatim>\<open>info[key] = value\<close> on an object literal with a string value: it
  creates or replaces the property \<^verbatim>\<open>key\<close>, except for the key \<^verbatim>\<open>__proto__\<close>,
  where the setter of \<^verbatim>\<open>Object.prototype\<close> runs and ignores a value that is not an
  object.
\<close>

definition setProperty :: "header \<Rightarrow> string \<Rightarrow> string \<Rightarrow> header" where
  "setProperty info k v = (if k = ''__proto__'' then info else info(k \<mapsto> v))"

text \<open>
  \<^verbatim>\<open>parseTcpRosHeader\<close>. On a field that does not match, the source evaluates the
  undeclared variable \<^verbatim>\<open>field\<close> for its log message, which throws a
  \<^verbatim>\<open>ReferenceError\<close> before \<^verbatim>\<open>null\<close> can be returned. The second argument is the
  object \<^verbatim>\<open>info\<close> built so far.
\<close>

function parseTcpRosHeaderFrom :: "buffer \<Rightarrow> header \<Rightarrow> error + header" where
  "parseTcpRosHeaderFrom hdr info =
     (if length hdr = 0 then Inr info
      else (case deserializeString hdr of
              Inl e \<Rightarrow> Inl e
            | Inr (str, rest) \<Rightarrow>
                (case matchField str of
                   None \<Rightarrow> Inl (ReferenceError ''field is not defined'')
                 | Some (k, v) \<Rightarrow> parseTcpRosHeaderFrom rest (setProperty info k v))))"
  by pat_completeness auto
termination
  by (relation "measure (\<lambda>(hdr, info). length hdr)")
     (auto simp: deserializeString_def Deserialize_string_def bindE_def Let_def split: if_splits)

definition parseTcpRosHeader :: "buffer \<Rightarrow> error + header" where
  "parseTcpRosHeader hdr = parseTcpRosHeaderFrom hdr Map.empty"

definition startsWith :: "string \<Rightarrow> string \<Rightarrow> bool" where
  "startsWith s p = (take (length p) s = p)"

function parsePubHeaderFrom :: "buffer \<Rightarrow> header \<Rightarrow> error + header" where
  "parsePubHeaderFrom hdr info =
     (if length hdr = 0 then Inr info
      else (case deserializeString hdr of
              Inl e \<Rightarrow> Inl e
            | Inr (field, rest) \<Rightarrow>
                parsePubHeaderFrom rest
                  (if startsWith field md5Prefix
                   then info(''md5sum'' \<mapsto> drop (length md5Prefix) field)
                   else if startsWith field latchingPrefix
                   then info(''latching'' \<mapsto> drop (length latchingPrefix) field)
                   else if startsWith field callerIdPrefix
                   then info(''callerId'' \<mapsto> drop (length callerIdPrefix) field)
                   else if startsWith field typePrefix
                   then info(''type'' \<mapsto> drop (length typePrefix) field)
                   else info)))"
  by pat_completeness auto
termination
  by (relation "measure (\<lambda>(hdr, info). length hdr)")
     (auto simp: deserializeString_def Deserialize_string_def bindE_def Let_def split: if_splits)

definition parsePubHeader :: "buffer \<Rightarrow> error + header" where
  "parsePubHeader hdr = parsePubHeaderFrom hdr Map.empty"

section \<open>\<^verbatim>\<open>Subscriber\<close>\<close>

text \<open>
  \<^verbatim>\<open>TcprosUtils.validatePubHeader\<close>. \<^verbatim>\<open>Subscriber.js\<close> takes \<^verbatim>\<open>TcprosUtils\<close>
  from \<^verbatim>\<open>utils/tcpros_utils.js\<close>, whose object has \<^verbatim>\<open>validateSubHeader\<close> and no
  property \<^verbatim>\<open>validatePubHeader\<close>: the property is \<^verbatim>\<open>undefined\<close>, and the call in
  \<^verbatim>\<open>_handleMessage\<close> throws a \<^verbatim>\<open>TypeError\<close> whatever its arguments.
\<close>

definition validatePubHeader :: "header \<Rightarrow> string \<Rightarrow> string \<Rightarrow> error + buffer option" where
  "validatePubHeader hdr typ md5 =
     Inl (TypeError ''TcprosUtils.validatePubHeader is not a function'')"

text \<open>
  A socket to a publisher with its \<^verbatim>\<open>$initialized\<close> flag. The effects of the
  subscriber: \<open>Deliver\<close> is \<^verbatim>\<open>emit('message', value)\<close>, the call of the user callback.
  Messages that go through the spinner are queued there as raw frames and reach
  \<^verbatim>\<open>_handleMsgQueue\<close> on a later tick.
\<close>

record pubClient =
  clientName :: string
  initialized :: bool

datatype 'a subscriber_effect =
    Deliver 'a
  | SubEmit string
  | SubSockEnd socket buffer
  | SubSockOn socket string
  | SubLog string

record 'a Subscriber =
  sub_topic :: string
  sub_type :: string
  sub_queueSize :: int
  sub_throttleMs :: int
  pubClients :: "(string \<times> socket) list"
  sub_messageHandler :: "'a MessageClass"

definition Subscriber_getSpinnerId :: "'a Subscriber \<Rightarrow> string" where
  "Subscriber_getSpinnerId sub = ''Subscriber://'' @ sub_topic sub"

fun Subscriber_handleMsgQueue :: "buffer list \<Rightarrow> 'a Subscriber \<Rightarrow> 'a subscriber_effect list" where
  "Subscriber_handleMsgQueue [] sub = []"
| "Subscriber_handleMsgQueue (msg # msgQueue) sub =
     (case deserialize (sub_messageHandler sub) msg of
        Inl err \<Rightarrow> SubLog ''Error while dispatching message''
      | Inr v \<Rightarrow> Deliver v)
     # Subscriber_handleMsgQueue msgQueue sub"

text \<open>\<^verbatim>\<open>header.error\<close> as a condition: the property is present and not the empty string.\<close>

definition truthy :: "string option \<Rightarrow> bool" where
  "truthy v = (case v of None \<Rightarrow> False | Some s \<Rightarrow> s \<noteq> [])"

definition Subscriber_handleMessage ::
  "buffer \<Rightarrow> pubClient \<times> 'a Subscriber \<times> (string, 'c, buffer) GlobalSpinner \<Rightarrow>
   error + (pubClient \<times> 'a Subscriber \<times> (string, 'c, buffer) GlobalSpinner) \<times> 'a subscriber_effect list" where
  "Subscriber_handleMessage msg st =
     (let (client, sub, spinner) = st
      in if \<not> initialized client
         then bindE (parseTcpRosHeader msg)
                (\<lambda>hdr.
                   if truthy (hdr ''error'')
                   then Inr ((client, sub, spinner),
                             [SubLog (case hdr ''error'' of None \<Rightarrow> [] | Some t \<Rightarrow> t)])
                   else bindE (validatePubHeader hdr (sub_type sub) (md5sum (sub_messageHandler sub)))
                          (\<lambda>err. case err of
                             Some e \<Rightarrow>
                               bindE (parsePubHeader msg)
                                 (\<lambda>_. Inr ((client, sub, spinner),
                                           [SubLog ''Unable to validate subscriber connection header'',
                                            SubSockEnd (clientName client) (Serialize e)]))
                           | None \<Rightarrow>
                               Inr ((client\<lparr>initialized := True\<rparr>,
                                     sub\<lparr>pubClients := AList.update (clientName client) (clientName client)
                                                          (pubClients sub)\<rparr>,
                                     spinner),
                                    [SubEmit ''connection'', SubSockOn (clientName client) ''close''])))
         else if sub_throttleMs sub < 0
              then Inr ((client, sub, spinner), Subscriber_handleMsgQueue [msg] sub)
              else bindE (ping (Subscriber_getSpinnerId sub) msg spinner)
                     (\<lambda>spinner1. Inr ((client, sub, spinner1), [])))"

text \<open>
  The frames of one connection, handled in order of arrival: the state afterwards, the
  effects, and the exception that ended the run, if any. The subscriber does not catch an
  exception of \<^verbatim>\<open>_handleMessage\<close>; every \<^verbatim>\<open>throw\<close> in it comes before its first
  assignment, so the state is then as it was.
\<close>

fun handleMessages ::
  "buffer list \<Rightarrow> pubClient \<times> 'a Subscriber \<times> (string, 'c, buffer) GlobalSpinner \<Rightarrow>
   (pubClient \<times> 'a Subscriber \<times> (string, 'c, buffer) GlobalSpinner)
     \<times> 'a subscriber_effect list \<times> error option" where
  "handleMessages [] st = (st, [], None)"
| "handleMessages (msg # msgs) st =
     (case Subscriber_handleMessage msg st of
        Inl e \<Rightarrow> (st, [], Some e)
      | Inr (st1, e1) \<Rightarrow>
          (case handleMessages msgs st1 of (st2, e2, err) \<Rightarrow> (st2, e1 @ e2, err)))"

definition isDeliver :: "'a subscriber_effect \<Rightarrow> bool" where
  "isDeliver e = (case e of Deliver _ \<Rightarrow> True | _ \<Rightarrow> False)"

definition isSockEnd :: "'a subscriber_effect \<Rightarrow> bool" where
  "isSockEnd e = (case e of SubSockEnd _ _ \<Rightarrow> True | _ \<Rightarrow> False)"

text \<open>
  For the examples: a subscriber to \<^verbatim>\<open>/chatter\<close>, and the response header of a
  publisher whose md5sum differs from the subscriber's.
\<close>

definition listener :: "string Subscriber" where
  "listener =
     \<lparr>sub_topic = ''/chatter'', sub_type = ''std_msgs/String'', sub_queueSize = 1,
      sub_throttleMs = 0, pubClients = [], sub_messageHandler = StringMessage\<rparr>"

definition mismatchedPubHeader :: buffer where
  "mismatchedPubHeader =
     encString ''callerid=/talker'' @ encString ''md5sum=0123''
       @ encString ''type=std_msgs/String'' @ encString ''latching=1''"

section \<open>Properties of the spinner\<close>

lemma shift_tl: "shift xs = tl xs" by (cases xs) (simp_all add: shift_def)

lemma push_queue:
  "queue (push m q) =
     (if int (length (queue q)) + 1 > queueSize q then tl (queue q @ [m]) else queue q @ [m])"
  by (simp add: push_def Let_def shift_tl)

lemma push_fields [simp]:
  "queueSize (push m q) = queueSize q" "client (push m q) = client q"
  "throttleMs (push m q) = throttleMs q" "handleTime (push m q) = handleTime q"
  by (simp_all add: push_def Let_def)

lemma fold_push_fields [simp]:
  "queueSize (fold push ms q) = queueSize q" "client (fold push ms q) = client q"
  "throttleMs (fold push ms q) = throttleMs q" "handleTime (fold push ms q) = handleTime q"
  by (induction ms arbitrary: q) simp_all

lemma fold_push_queue:
  "1 \<le> queueSize q \<Longrightarrow> int (length (queue q)) \<le> queueSize q \<Longrightarrow>
   queue (fold push ms q) = drop (length (queue q @ ms) - nat (queueSize q)) (queue q @ ms)"
proof (induction ms arbitrary: q)
  case Nil
  then show ?case by simp
next
  case (Cons m ms)
  let ?q' = "push m q"
  have len: "int (length (queue ?q')) \<le> queueSize ?q'"
    using Cons.prems by (auto simp: push_queue)
  have ih: "queue (fold push ms ?q') =
      drop (length (queue ?q' @ ms) - nat (queueSize q)) (queue ?q' @ ms)"
    using Cons.IH[of ?q'] len Cons.prems by simp
  show ?case
  proof (cases "int (length (queue q)) + 1 > queueSize q")
    case True
    then have eq: "length (queue q) = nat (queueSize q)" using Cons.prems by linarith
    have q': "queue ?q' = tl (queue q @ [m])" using True by (simp add: push_queue)
    have "queue ?q' @ ms = drop 1 (queue q @ m # ms)"
      using q' Cons.prems eq by (cases "queue q") (auto simp: drop_Suc)
    then show ?thesis using ih eq Cons.prems by (simp add: q')
  next
    case False
    then show ?thesis using ih by (simp add: push_queue)
  qed
qed

lemma new_ClientQueue_Inr:
  "new_ClientQueue c n t = Inr q \<Longrightarrow>
     1 \<le> queueSize q \<and> queue q = [] \<and> queueSize q = n \<and> client q = c \<and> handleTime q = None"
  by (auto simp: new_ClientQueue_def split: if_splits)

text \<open>
  Claim C1. Take a client queue of capacity \<open>queueSize q \<ge> 1\<close> that is empty (as the
  constructor leaves it, or as a dispatch leaves it) and push the messages \<open>msgs\<close> in
  order. The queue then holds exactly the last \<open>min (length msgs) (queueSize q)\<close>
  messages in push order: on overflow the oldest element went, never the newest. When
  \<^verbatim>\<open>handleClientMessages\<close> dispatches, it makes one call to the owning client with
  exactly that batch and leaves the queue empty.
\<close>

theorem ClientQueue_keeps_newest_and_dispatches_batch:
  assumes "1 \<le> queueSize q" and "queue q = []"
  shows "queue (fold push msgs q) = drop (length msgs - nat (queueSize q)) msgs
       \<and> length (queue (fold push msgs q)) = min (length msgs) (nat (queueSize q))
       \<and> (fst (handleClientMessages now (fold push msgs q)) \<longrightarrow>
            handleClientMessages now (fold push msgs q) =
              (True, [(client q, drop (length msgs - nat (queueSize q)) msgs)],
               (fold push msgs q)\<lparr>handleTime := Some now, queue := []\<rparr>))"
proof -
  have q: "queue (fold push msgs q) = drop (length msgs - nat (queueSize q)) msgs"
    using fold_push_queue[of q msgs] assms by simp
  have l: "length (queue (fold push msgs q)) = min (length msgs) (nat (queueSize q))"
    unfolding q by simp
  have d: "fst (handleClientMessages now (fold push msgs q)) \<longrightarrow>
            handleClientMessages now (fold push msgs q) =
              (True, [(client q, drop (length msgs - nat (queueSize q)) msgs)],
               (fold push msgs q)\<lparr>handleTime := Some now, queue := []\<rparr>)"
    by (simp add: handleClientMessages_def q split: option.splits)
  from q l d show ?thesis by blast
qed

text \<open>
  Capacity 2 and pushes 10, 20, 30: the queue is [20, 30], and the dispatch at time 7 hands
  [20, 30] to the client in one call.
\<close>

theorem ClientQueue_keeps_newest_and_dispatches_batch_witness:
  "queue (fold push [10, 20, 30 :: nat]
            \<lparr>client = ''sub'', queue = [], queueSize = 2, throttleMs = 0, handleTime = None\<rparr>) = [20, 30]
   \<and> handleClientMessages 7 (fold push [10, 20, 30 :: nat]
            \<lparr>client = ''sub'', queue = [], queueSize = 2, throttleMs = 0, handleTime = None\<rparr>)
     = (True, [(''sub'', [20, 30])],
        \<lparr>client = ''sub'', queue = [], queueSize = 2, throttleMs = 0, handleTime = Some 7\<rparr>)"
  using ClientQueue_keeps_newest_and_dispatches_batch[of "\<lparr>client = ''sub'', queue = [], queueSize = 2, throttleMs = 0, handleTime = None\<rparr>"
             "[10, 20, 30 :: nat]" 7]
  by (simp add: handleClientMessages_def push_def shift_def)

lemma set_new_Set_aux: "set (fold set_add xs ys) = set xs \<union> set ys"
  by (induction xs arbitrary: ys) (auto simp: set_add_def)

lemma set_new_Set [simp]: "set (new_Set xs) = set xs"
  by (simp add: new_Set_def set_new_Set_aux)

lemma handleClients_other:
  "handleClients now cids (m, calls, keep) = Inr (m', calls', keep') \<Longrightarrow> cid \<notin> set cids \<Longrightarrow>
   map_of m' cid = map_of m cid \<and> (cid \<in> set keep' \<longleftrightarrow> cid \<in> set keep) \<and> set calls \<subseteq> set calls'"
proof (induction cids arbitrary: m calls keep)
  case Nil
  then show ?case by simp
next
  case (Cons a cids)
  from Cons.prems obtain qa where qa: "map_of m a = Some qa"
    by (auto split: option.splits)
  obtain h cs qa' where hc: "handleClientMessages now qa = (h, cs, qa')"
    by (cases "handleClientMessages now qa") auto
  have rec: "handleClients now cids (AList.update a qa' m, calls @ cs,
               if \<not> h then keep @ [a] else keep) = Inr (m', calls', keep')"
    using Cons.prems(1) qa hc by simp
  have "cid \<notin> set cids" "cid \<noteq> a" using Cons.prems(2) by auto
  with Cons.IH[OF rec] show ?case by (auto simp: update_conv')
qed

lemma handleClients_member:
  "handleClients now cids (m, calls, keep) = Inr (m', calls', keep') \<Longrightarrow> distinct cids \<Longrightarrow>
   cid \<in> set cids \<Longrightarrow> map_of m cid = Some q \<Longrightarrow> cid \<notin> set keep \<Longrightarrow>
   map_of m' cid = Some (snd (snd (handleClientMessages now q)))
   \<and> set (fst (snd (handleClientMessages now q))) \<subseteq> set calls'
   \<and> (cid \<in> set keep' \<longleftrightarrow> \<not> fst (handleClientMessages now q))"
proof (induction cids arbitrary: m calls keep)
  case Nil
  then show ?case by simp
next
  case (Cons a cids)
  from Cons.prems obtain qa where qa: "map_of m a = Some qa"
    by (auto split: option.splits)
  obtain h cs qa' where hc: "handleClientMessages now qa = (h, cs, qa')"
    by (cases "handleClientMessages now qa") auto
  have rec: "handleClients now cids (AList.update a qa' m, calls @ cs,
               if \<not> h then keep @ [a] else keep) = Inr (m', calls', keep')"
    using Cons.prems(1) qa hc by simp
  show ?case
  proof (cases "cid = a")
    case True
    then have "cid \<notin> set cids" using Cons.prems(2) by simp
    from handleClients_other[OF rec this] True qa hc Cons.prems(4,5)
    show ?thesis by (auto simp: update_conv')
  next
    case False
    then have "cid \<in> set cids" "distinct cids" using Cons.prems by auto
    moreover have "map_of (AList.update a qa' m) cid = Some q"
      using False Cons.prems(4) by (simp add: update_conv')
    moreover have "cid \<notin> set (if \<not> h then keep @ [a] else keep)"
      using False Cons.prems(5) by simp
    ultimately show ?thesis using Cons.IH[OF rec] by blast
  qed
qed

lemma hcm_fst:
  "fst (handleClientMessages now q) \<longleftrightarrow>
     (handleTime q = None \<or> (\<exists>h. handleTime q = Some h \<and> now - h > throttleMs q))"
  by (auto simp: handleClientMessages_def split: option.splits)

lemma hcm_not:
  "\<not> fst (handleClientMessages now q) \<Longrightarrow> handleClientMessages now q = (False, [], q)"
  by (auto simp: handleClientMessages_def split: option.splits if_splits)

lemma hcm_yes:
  "fst (handleClientMessages now q) \<Longrightarrow>
   handleClientMessages now q = (True, [(client q, queue q)], q\<lparr>handleTime := Some now, queue := []\<rparr>)"
  by (auto simp: handleClientMessages_def split: option.splits if_splits)

lemma new_Set_Nil [simp]: "new_Set xs = [] \<longleftrightarrow> xs = []"
  using set_new_Set[of xs] by (metis set_empty)

lemma handleQueue_Inr:
  assumes "handleQueue now s = Inr (calls, s')"
  obtains m keep where
    "handleClients now (clientCallQueue s) (clientQueueMap s, [], []) = Inr (m, calls, keep)"
    "clientQueueMap s' = m" "set (clientCallQueue s') = set keep"
    "keep \<noteq> [] \<longrightarrow> spinTimer s'"
proof -
  from assms obtain m keep where
    hc: "handleClients now (clientCallQueue s) (clientQueueMap s, [], []) = Inr (m, calls, keep)"
    by (auto simp: handleQueue_def Let_def split: sum.splits prod.splits if_splits)
  from assms hc have "clientQueueMap s' = m" "set (clientCallQueue s') = set keep"
    "keep \<noteq> [] \<longrightarrow> spinTimer s'"
    by (auto simp: handleQueue_def Let_def setTimer_def
          split: sum.splits prod.splits if_splits)
  with hc that show thesis by blast
qed

text \<open>
  Claim C9, as the code has it. \<^verbatim>\<open>handleClientMessages\<close> dispatches if and only if
  the last dispatch time is unset or \<open>now - lastDispatchTime\<close> is strictly greater than
  \<open>throttleMs\<close>; otherwise it makes no call and leaves the queue object as it was.
  On a tick (\<^verbatim>\<open>_handleQueue\<close>) that returns, a client of the call set that is
  dispatched gets its batch and leaves the call set; a client that is not dispatched keeps
  its queue, stays in the call set, and the timer is armed again.
\<close>

theorem dispatch_iff_strictly_past_throttle:
  "(fst (handleClientMessages now q) \<longleftrightarrow>
      (handleTime q = None \<or> (\<exists>h. handleTime q = Some h \<and> now - h > throttleMs q)))
   \<and> (\<not> fst (handleClientMessages now q) \<longrightarrow> handleClientMessages now q = (False, [], q))
   \<and> (handleQueue now s = Inr (calls, s') \<and> distinct (clientCallQueue s)
        \<and> clientId \<in> set (clientCallQueue s) \<and> map_of (clientQueueMap s) clientId = Some q \<longrightarrow>
       (if fst (handleClientMessages now q)
        then (client q, queue q) \<in> set calls
           \<and> map_of (clientQueueMap s') clientId = Some (q\<lparr>handleTime := Some now, queue := []\<rparr>)
           \<and> clientId \<notin> set (clientCallQueue s')
        else map_of (clientQueueMap s') clientId = Some q
           \<and> clientId \<in> set (clientCallQueue s') \<and> spinTimer s'))"
proof (intro conjI impI)
  show "fst (handleClientMessages now q) \<longleftrightarrow>
      (handleTime q = None \<or> (\<exists>h. handleTime q = Some h \<and> now - h > throttleMs q))"
    by (rule hcm_fst)
next
  assume "\<not> fst (handleClientMessages now q)"
  then show "handleClientMessages now q = (False, [], q)" by (rule hcm_not)
next
  assume a: "handleQueue now s = Inr (calls, s') \<and> distinct (clientCallQueue s)
        \<and> clientId \<in> set (clientCallQueue s) \<and> map_of (clientQueueMap s) clientId = Some q"
  then obtain m keep where
    hc: "handleClients now (clientCallQueue s) (clientQueueMap s, [], []) = Inr (m, calls, keep)"
    and m: "clientQueueMap s' = m" and k: "set (clientCallQueue s') = set keep"
    and t: "keep \<noteq> [] \<longrightarrow> spinTimer s'"
    by (auto elim: handleQueue_Inr)
  have mem: "map_of m clientId = Some (snd (snd (handleClientMessages now q)))
     \<and> set (fst (snd (handleClientMessages now q))) \<subseteq> set calls
     \<and> (clientId \<in> set keep \<longleftrightarrow> \<not> fst (handleClientMessages now q))"
    using handleClients_member[OF hc, of clientId q] a by simp
  show "if fst (handleClientMessages now q)
        then (client q, queue q) \<in> set calls
           \<and> map_of (clientQueueMap s') clientId = Some (q\<lparr>handleTime := Some now, queue := []\<rparr>)
           \<and> clientId \<notin> set (clientCallQueue s')
        else map_of (clientQueueMap s') clientId = Some q
           \<and> clientId \<in> set (clientCallQueue s') \<and> spinTimer s'"
  proof (cases "fst (handleClientMessages now q)")
    case True
    with mem m k show ?thesis by (simp add: hcm_yes)
  next
    case False
    with mem have "keep \<noteq> []" by auto
    with False mem m k t show ?thesis by (simp add: hcm_not)
  qed
qed

text \<open>
  Claim C9 as stated fails when \<open>now - lastDispatchTime = throttleMs\<close>: with
  \<open>throttleMs = 5\<close>, last dispatch at 100 and a tick at 105 the specification's rule
  makes the client eligible, and the code does not dispatch.
\<close>

theorem dispatch_at_exact_throttle_counterexample:
  "spec_eligible 105 \<lparr>client = ''sub'', queue = [1 :: nat], queueSize = 1, throttleMs = 5, handleTime = Some 100\<rparr>
   \<and> handleClientMessages 105 \<lparr>client = ''sub'', queue = [1 :: nat], queueSize = 1, throttleMs = 5, handleTime = Some 100\<rparr>
     = (False, [], \<lparr>client = ''sub'', queue = [1 :: nat], queueSize = 1, throttleMs = 5, handleTime = Some 100\<rparr>)"
  by (simp add: spec_eligible_def handleClientMessages_def)


text \<open>
  A tick at 105 over two pending clients: \<open>a\<close> (throttled: 5 ms, last dispatch at 100)
  is kept with its queue intact, \<open>b\<close> (never dispatched) receives its batch.
\<close>

theorem dispatch_iff_strictly_past_throttle_witness:
  "handleClientMessages 105 \<lparr>client = ''A'', queue = [1::nat], queueSize = 1, throttleMs = 5, handleTime = Some 100\<rparr>
     = (False, [], \<lparr>client = ''A'', queue = [1], queueSize = 1, throttleMs = 5, handleTime = Some 100\<rparr>)
   \<and> handleQueue 105 \<lparr>spinTimer = True, clientCallQueue = [''a'', ''b''],
        clientQueueMap =
          [(''a'', \<lparr>client = ''A'', queue = [1::nat], queueSize = 1, throttleMs = 5, handleTime = Some 100\<rparr>),
           (''b'', \<lparr>client = ''B'', queue = [2], queueSize = 1, throttleMs = 0, handleTime = None\<rparr>)]\<rparr>
     = Inr ([(''B'', [2])],
        \<lparr>spinTimer = True, clientCallQueue = [''a''],
         clientQueueMap =
          [(''a'', \<lparr>client = ''A'', queue = [1], queueSize = 1, throttleMs = 5, handleTime = Some 100\<rparr>),
           (''b'', \<lparr>client = ''B'', queue = [], queueSize = 1, throttleMs = 0, handleTime = Some 105\<rparr>)]\<rparr>)"
  using dispatch_iff_strictly_past_throttle[of 105 "\<lparr>client = ''A'', queue = [1::nat], queueSize = 1, throttleMs = 5, handleTime = Some 100\<rparr>"
      "\<lparr>spinTimer = True, clientCallQueue = [''a'', ''b''],
        clientQueueMap =
          [(''a'', \<lparr>client = ''A'', queue = [1::nat], queueSize = 1, throttleMs = 5, handleTime = Some 100\<rparr>),
           (''b'', \<lparr>client = ''B'', queue = [2], queueSize = 1, throttleMs = 0, handleTime = None\<rparr>)]\<rparr>"
      "[(''B'', [2])]"
      "\<lparr>spinTimer = True, clientCallQueue = [''a''],
         clientQueueMap =
          [(''a'', \<lparr>client = ''A'', queue = [1], queueSize = 1, throttleMs = 5, handleTime = Some 100\<rparr>),
           (''b'', \<lparr>client = ''B'', queue = [], queueSize = 1, throttleMs = 0, handleTime = Some 105\<rparr>)]\<rparr>"
      "''a''"]
  by (simp add: handleQueue_def handleClientMessages_def getClientsWithQueuedMessages_def
       new_Set_def set_add_def setTimer_def Let_def)

lemma applyOp_unregistered:
  "map_of (clientQueueMap s) clientId = None \<Longrightarrow> \<not> registers clientId op \<Longrightarrow>
   map_of (clientQueueMap (applyOp op s)) clientId = None"
proof (cases op)
  case (AddClient c clientId1 qs t)
  assume "map_of (clientQueueMap s) clientId = None" "\<not> registers clientId op"
  then show ?thesis
    using AddClient
    by (auto simp: addClient_def new_ClientQueue_def update_conv' split: if_splits)
next
  case (Ping clientId1 msg)
  assume "map_of (clientQueueMap s) clientId = None"
  then show ?thesis
    using Ping
    by (auto simp: ping_def queueMessage_def setTimer_def update_conv' split: option.splits)
next
  case (Disconnect clientId1)
  assume "map_of (clientQueueMap s) clientId = None"
  then show ?thesis
    using Disconnect by (simp add: disconnect_def delete_conv')
qed

lemma history_unregistered:
  "map_of (clientQueueMap s) clientId = None \<Longrightarrow> \<forall>op \<in> set ops. \<not> registers clientId op \<Longrightarrow>
   map_of (clientQueueMap (fold applyOp ops s)) clientId = None"
  by (induction ops arbitrary: s) (simp_all add: applyOp_unregistered)

lemma handleClients_keys:
  "handleClients now cids (m, calls, keep) = Inr (m', calls', keep') \<Longrightarrow>
   map_of m' clientId = None \<longleftrightarrow> map_of m clientId = None"
proof (induction cids arbitrary: m calls keep)
  case Nil
  then show ?case by simp
next
  case (Cons a cids)
  from Cons.prems obtain qa where qa: "map_of m a = Some qa"
    by (auto split: option.splits)
  obtain h cs qa' where hc: "handleClientMessages now qa = (h, cs, qa')"
    by (cases "handleClientMessages now qa") auto
  have rec: "handleClients now cids (AList.update a qa' m, calls @ cs,
               if \<not> h then keep @ [a] else keep) = Inr (m', calls', keep')"
    using Cons.prems qa hc by simp
  from Cons.IH[OF rec] qa show ?case by (auto simp: update_conv')
qed

text \<open>A tick registers nobody either.\<close>

lemma handleQueue_unregistered:
  "handleQueue now s = Inr (calls, s') \<Longrightarrow>
   map_of (clientQueueMap s') clientId = None \<longleftrightarrow> map_of (clientQueueMap s) clientId = None"
  by (erule handleQueue_Inr) (simp add: handleClients_keys)

text \<open>
  Claim C10. \<^verbatim>\<open>addClient\<close> stores a new queue under the client id exactly when
  \<open>queueSize > 0\<close> and otherwise leaves the spinner as it was; the constructor of
  \<^verbatim>\<open>ClientQueue\<close> throws for \<open>queueSize < 1\<close>; a ping for an id without a queue
  throws "Unable to queue message for unknown client" (nothing is queued). After any
  history of calls on a new spinner in which no \<^verbatim>\<open>addClient\<close> gave the id a positive
  queue size, a ping for that id throws.
\<close>

theorem unknown_client_ping_throws:
  fixes s :: "('id, 'c, 'm) GlobalSpinner" and c :: 'c and msg :: 'm
    and ops :: "('id, 'c, 'm) spinner_op list"
  shows
  "addClient c clientId n t s =
     (if n > 0
      then Inr (s\<lparr>clientQueueMap :=
                  AList.update clientId
                    \<lparr>client = c, queue = [], queueSize = n, throttleMs = t, handleTime = None\<rparr>
                    (clientQueueMap s)\<rparr>)
      else Inr s)
   \<and> (n < 1 \<longrightarrow> (new_ClientQueue c n t :: error + ('c, 'm) ClientQueue) =
          Inl (Error ''Unable to create client message queue with size - minimum is 1''))
   \<and> (map_of (clientQueueMap s) clientId = None \<longrightarrow>
        ping clientId msg s = Inl (Error ''Unable to queue message for unknown client''))
   \<and> ((\<forall>op \<in> set ops. \<not> registers clientId op) \<longrightarrow>
        ping clientId msg (fold applyOp ops new_GlobalSpinner) =
          Inl (Error ''Unable to queue message for unknown client''))"
proof (intro conjI impI)
  show "addClient c clientId n t s =
     (if n > 0
      then Inr (s\<lparr>clientQueueMap :=
                  AList.update clientId
                    \<lparr>client = c, queue = [], queueSize = n, throttleMs = t, handleTime = None\<rparr>
                    (clientQueueMap s)\<rparr>)
      else Inr s)"
    by (simp add: addClient_def new_ClientQueue_def)
next
  assume "n < 1"
  then show "(new_ClientQueue c n t :: error + ('c, 'm) ClientQueue) =
          Inl (Error ''Unable to create client message queue with size - minimum is 1'')"
    by (simp add: new_ClientQueue_def)
next
  assume "map_of (clientQueueMap s) clientId = None"
  then show "ping clientId msg s = Inl (Error ''Unable to queue message for unknown client'')"
    by (simp add: ping_def queueMessage_def)
next
  assume "\<forall>op \<in> set ops. \<not> registers clientId op"
  then have "map_of (clientQueueMap (fold applyOp ops (new_GlobalSpinner :: ('id, 'c, 'm) GlobalSpinner)))
               clientId = None"
    by (intro history_unregistered) (simp_all add: new_GlobalSpinner_def)
  then show "ping clientId msg (fold applyOp ops new_GlobalSpinner) =
          Inl (Error ''Unable to queue message for unknown client'')"
    by (simp add: ping_def queueMessage_def)
qed

text \<open>
  A publisher added with queue size 0 to a new spinner is not registered, and its ping
  throws, also after another client was added, pinged and removed.
\<close>

theorem unknown_client_ping_throws_witness:
  "addClient ''P'' ''Publisher://chatter'' 0 0 (new_GlobalSpinner :: (string, string, nat) GlobalSpinner)
     = Inr new_GlobalSpinner
   \<and> (new_ClientQueue ''P'' 0 0 :: error + (string, nat) ClientQueue) =
          Inl (Error ''Unable to create client message queue with size - minimum is 1'')
   \<and> ping ''Publisher://chatter'' (5::nat) (new_GlobalSpinner :: (string, string, nat) GlobalSpinner)
     = Inl (Error ''Unable to queue message for unknown client'')
   \<and> ping ''Publisher://chatter'' (5::nat)
       (fold applyOp
          [AddClient ''P'' ''Publisher://chatter'' 0 0, AddClient ''S'' ''Subscriber://chatter'' 1 0,
           Ping ''Subscriber://chatter'' 7, Disconnect ''Subscriber://chatter'']
          (new_GlobalSpinner :: (string, string, nat) GlobalSpinner))
     = Inl (Error ''Unable to queue message for unknown client'')"
proof -
  let ?ops = "[AddClient ''P'' ''Publisher://chatter'' 0 0,
               AddClient ''S'' ''Subscriber://chatter'' 1 0,
               Ping ''Subscriber://chatter'' (7::nat), Disconnect ''Subscriber://chatter'']"
  have h: "\<forall>op \<in> set ?ops. \<not> registers ''Publisher://chatter'' op" by simp
  have e: "map_of (clientQueueMap (new_GlobalSpinner :: (string, string, nat) GlobalSpinner))
             ''Publisher://chatter'' = None"
    by (simp add: new_GlobalSpinner_def)
  note inst = unknown_client_ping_throws[where c = "''P''" and clientId = "''Publisher://chatter''"
          and n = 0 and t = 0 and s = "new_GlobalSpinner :: (string, string, nat) GlobalSpinner"
          and msg = "5::nat" and ops = ?ops]
  have a: "addClient ''P'' ''Publisher://chatter'' 0 0 (new_GlobalSpinner :: (string, string, nat) GlobalSpinner)
             = Inr new_GlobalSpinner"
    using inst[THEN conjunct1] by simp
  have b: "(new_ClientQueue ''P'' 0 0 :: error + (string, nat) ClientQueue) =
          Inl (Error ''Unable to create client message queue with size - minimum is 1'')"
    using inst[THEN conjunct2, THEN conjunct1] by simp
  have c: "ping ''Publisher://chatter'' (5::nat) (new_GlobalSpinner :: (string, string, nat) GlobalSpinner)
             = Inl (Error ''Unable to queue message for unknown client'')"
    using inst[THEN conjunct2, THEN conjunct2, THEN conjunct1, THEN mp, OF e] .
  have d: "ping ''Publisher://chatter'' (5::nat)
             (fold applyOp ?ops (new_GlobalSpinner :: (string, string, nat) GlobalSpinner))
             = Inl (Error ''Unable to queue message for unknown client'')"
    using inst[THEN conjunct2, THEN conjunct2, THEN conjunct2, THEN mp, OF h] .
  from a b c d show ?thesis by blast
qed

section \<open>Properties of the master RPC client\<close>

lemma scheduleTryAgain_eq:
  "timeout s < 18 \<Longrightarrow>
   scheduleTryAgain s = (s\<lparr>timeout := min (timeout s + 1) 17, timeoutId := Some (Timer (Some (TRY_AGAIN_LIST ! timeout s)))\<rparr>,
       [SetTimeout (Some (TRY_AGAIN_LIST ! timeout s))])"
  by (auto simp: scheduleTryAgain_def js_index_def TRY_AGAIN_LIST_def Let_def min_def)

lemma callSettled_refused:
  "timeout s < 18 \<Longrightarrow>
   callSettled call refused s = (s\<lparr>timeout := min (timeout s + 1) 17, timeoutId := Some (Timer (Some (TRY_AGAIN_LIST ! timeout s)))\<rparr>,
       [SetTimeout (Some (TRY_AGAIN_LIST ! timeout s))])"
  by (simp add: callSettled_def refused_def connectionRefused_def CONNECTION_REFUSED_def scheduleTryAgain_eq)

lemma fst_tryExecuteCall: "fst (tryExecuteCall s) = s"
  by (simp add: tryExecuteCall_def split: list.splits)

lemma consecutive_Suc:
  "consecutive (Suc k) call out s =
     (fst (consecutive k call out (fst (callSettled call out s))),
      snd (callSettled call out s) # snd (consecutive k call out (fst (callSettled call out s))))"
  by (simp add: case_prod_beta fst_tryExecuteCall)

lemma consecutive_refused_all:
  fixes s :: "'x XmlrpcClient"
  assumes "timeout s = min j 17"
  shows "snd (consecutive k call refused s)
           = map (\<lambda>i. [SetTimeout (Some (TRY_AGAIN_LIST ! min (j + i) 17))]) [0..<k]
    \<and> callQueue (fst (consecutive k call refused s)) = callQueue s
    \<and> timeout (fst (consecutive k call refused s)) = min (j + k) 17"
  using assms
proof (induction k arbitrary: s j)
  case 0
  then show ?case by simp
next
  case (Suc k)
  define s1 where "s1 = fst (callSettled call refused s)"
  have lt: "timeout s < 18" using Suc.prems by simp
  have s1: "timeout s1 = min (Suc j) 17" "callQueue s1 = callQueue s"
    and e1: "snd (callSettled call refused s) = [SetTimeout (Some (TRY_AGAIN_LIST ! min j 17))]"
    using Suc.prems by (simp_all add: s1_def callSettled_refused[OF lt])
  have step: "consecutive (Suc k) call refused s =
      (fst (consecutive k call refused s1),
       [SetTimeout (Some (TRY_AGAIN_LIST ! min j 17))] # snd (consecutive k call refused s1))"
    unfolding consecutive_Suc s1_def e1 by simp
  have shift: "map (\<lambda>i. [SetTimeout (Some (TRY_AGAIN_LIST ! min (j + i) 17)) :: 'x xmlrpc_effect]) [0..<Suc k]
      = [SetTimeout (Some (TRY_AGAIN_LIST ! min j 17))] #
        map (\<lambda>i. [SetTimeout (Some (TRY_AGAIN_LIST ! min (Suc j + i) 17))]) [0..<k]"
    by (simp add: upt_conv_Cons map_Suc_upt[symmetric] del: upt_Suc)
  from Suc.IH[OF s1(1)] show ?case
    unfolding step shift using s1(2) by simp
qed

lemmas consecutive_refused =
  consecutive_refused_all[THEN conjunct1]
  consecutive_refused_all[THEN conjunct2, THEN conjunct1]
  consecutive_refused_all[THEN conjunct2, THEN conjunct2]

lemma callSettled_Fulfilled:
  "callSettled call (Fulfilled resp) s =
     (s\<lparr>callQueue := (case callQueue s of [] \<Rightarrow> [] | _ # r \<Rightarrow> r), timeout := 0, timeoutId := None\<rparr>,
      CallResolved call resp # (case callQueue s of _ # nxt # _ \<Rightarrow> [MethodCall nxt] | _ \<Rightarrow> []))"
  by (auto simp: callSettled_def resetTimeout_def shiftQueue_def shift_def tryExecuteCall_def split: list.splits)

text \<open>
  Claim C2. Starting from backoff index 0 (a new client, or any client after a success),
  the \<open>k\<close>-th of \<open>k \<ge> 1\<close> consecutive connection-refused failures schedules the
  retry after the \<open>k\<close>-th entry of 1, 2, 2, 4, 4, 4, 4, 8, 8, 8, 8, 16, 32, 64, 128, 256, 512,
  1000 ms, and after the last entry for \<open>k\<close> beyond 18. A successful call resets the index
  to 0, so that the next refused call waits 1 ms.
\<close>

theorem backoff_schedule:
  fixes s :: "'x XmlrpcClient" and s' :: "'x XmlrpcClient"
  assumes "timeout s = 0" and "1 \<le> k"
  shows "snd (consecutive k call refused s) ! (k - 1) =
           [SetTimeout (Some ([1, 2, 2, 4, 4, 4, 4, 8, 8, 8, 8, 16, 32, 64, 128, 256, 512, 1000]
                               ! (min k 18 - 1)))]
       \<and> timeout (fst (callSettled call' (Fulfilled resp) s')) = 0
       \<and> snd (callSettled call'' refused (fst (callSettled call' (Fulfilled resp) s'))) = [SetTimeout (Some 1)]
       \<and> timeout (new_XmlrpcClient :: 'x XmlrpcClient) = 0"
proof -
  have t: "timeout s = min 0 17" using assms by simp
  have m: "min (k - 1) 17 = min k 18 - 1" using assms(2) by simp
  have "snd (consecutive k call refused s) ! (k - 1) = [SetTimeout (Some (TRY_AGAIN_LIST ! min (k - 1) 17))]"
    using assms(2) by (simp add: consecutive_refused(1)[OF t])
  then have a: "snd (consecutive k call refused s) ! (k - 1) =
           [SetTimeout (Some ([1, 2, 2, 4, 4, 4, 4, 8, 8, 8, 8, 16, 32, 64, 128, 256, 512, 1000]
                               ! (min k 18 - 1)))]"
    unfolding m TRY_AGAIN_LIST_def .
  have b: "timeout (fst (callSettled call' (Fulfilled resp) s')) = 0"
    by (simp add: callSettled_Fulfilled)
  have c: "snd (callSettled call'' refused (fst (callSettled call' (Fulfilled resp) s'))) = [SetTimeout (Some 1)]"
    by (simp add: callSettled_Fulfilled callSettled_refused TRY_AGAIN_LIST_def)
  have d: "timeout (new_XmlrpcClient :: 'x XmlrpcClient) = 0"
    by (simp add: new_XmlrpcClient_def)
  from a b c d show ?thesis by blast
qed

text \<open>
  The seventh consecutive failure waits 4 ms and the thirtieth 1000 ms.
\<close>

theorem backoff_schedule_witness:
  "snd (consecutive 7 \<lparr>methodName = ''registerPublisher'', data = ''/chatter''\<rparr> refused
          \<lparr>callQueue = [\<lparr>methodName = ''registerPublisher'', data = ''/chatter''\<rparr>], timeout = 0, timeoutId = None\<rparr>) ! 6
     = [SetTimeout (Some 4)]
   \<and> snd (consecutive 30 \<lparr>methodName = ''registerPublisher'', data = ''/chatter''\<rparr> refused
          \<lparr>callQueue = [\<lparr>methodName = ''registerPublisher'', data = ''/chatter''\<rparr>], timeout = 0, timeoutId = None\<rparr>) ! 29
     = [SetTimeout (Some 1000)]"
  using backoff_schedule[of "\<lparr>callQueue = [\<lparr>methodName = ''registerPublisher'', data = ''/chatter''\<rparr>], timeout = 0, timeoutId = None\<rparr>"
          7 "\<lparr>methodName = ''registerPublisher'', data = ''/chatter''\<rparr>"]
        backoff_schedule[of "\<lparr>callQueue = [\<lparr>methodName = ''registerPublisher'', data = ''/chatter''\<rparr>], timeout = 0, timeoutId = None\<rparr>"
          30 "\<lparr>methodName = ''registerPublisher'', data = ''/chatter''\<rparr>"]
  by simp

lemma callSettled_retry:
  assumes "connectionRefused err"
  shows "callSettled call (Rejected err) s =
           (fst (scheduleTryAgain s), [SetTimeout (js_index TRY_AGAIN_LIST (timeout s))])"
    and "callQueue (fst (scheduleTryAgain s)) = callQueue s"
    and "timeoutId (fst (scheduleTryAgain s)) = Some (Timer (js_index TRY_AGAIN_LIST (timeout s)))"
  using assms by (simp_all add: callSettled_def scheduleTryAgain_def Let_def)

lemma callSettled_moveOn:
  assumes "\<not> connectionRefused err"
  shows "callSettled call (Rejected err) s =
     (s\<lparr>callQueue := (case callQueue s of [] \<Rightarrow> [] | _ # r \<Rightarrow> r), timeout := 0, timeoutId := None\<rparr>,
      CallRejected call err # (case callQueue s of _ # nxt # _ \<Rightarrow> [MethodCall nxt] | _ \<Rightarrow> []))"
  using assms
  by (auto simp: callSettled_def resetTimeout_def shiftQueue_def shift_def tryExecuteCall_def split: list.splits)

text \<open>
  Claim C3, as the code has it. The failure handler retries exactly the failures whose error
  object has the code ECONNREFUSED: the head call stays in the queue, a timer is set with
  the current backoff delay, and when it fires the same head call is started again. Every
  other failure (a response whose status is not 1, or an error with any other code)
  removes the head, resets the backoff, rejects the call, and starts the next queued call.
\<close>

theorem retry_only_on_connection_refused:
  fixes s :: "'x XmlrpcClient"
  assumes "callQueue s = call # rest"
  shows "(connectionRefused err \<longleftrightarrow> (\<exists>e. err = Some e \<and> code e = Some ''ECONNREFUSED''))
       \<and> (connectionRefused err \<longrightarrow>
            callQueue (fst (callSettled call (Rejected err) s)) = call # rest
          \<and> snd (callSettled call (Rejected err) s) = [SetTimeout (js_index TRY_AGAIN_LIST (timeout s))]
          \<and> timeoutId (fst (callSettled call (Rejected err) s)) = Some (Timer (js_index TRY_AGAIN_LIST (timeout s)))
          \<and> snd (tryExecuteCall (fst (callSettled call (Rejected err) s))) = [MethodCall call])
       \<and> (\<not> connectionRefused err \<longrightarrow>
            callSettled call (Rejected err) s =
              (s\<lparr>callQueue := rest, timeout := 0, timeoutId := None\<rparr>,
               CallRejected call err # (case rest of [] \<Rightarrow> [] | nxt # _ \<Rightarrow> [MethodCall nxt])))"
proof (intro conjI impI)
  show "connectionRefused err \<longleftrightarrow> (\<exists>e. err = Some e \<and> code e = Some ''ECONNREFUSED'')"
    by (simp add: connectionRefused_def CONNECTION_REFUSED_def split: option.splits)
next
  assume r: "connectionRefused err"
  show "callQueue (fst (callSettled call (Rejected err) s)) = call # rest"
    using assms by (simp add: callSettled_retry[OF r])
  show "snd (callSettled call (Rejected err) s) = [SetTimeout (js_index TRY_AGAIN_LIST (timeout s))]"
    by (simp add: callSettled_retry[OF r])
  show "timeoutId (fst (callSettled call (Rejected err) s)) = Some (Timer (js_index TRY_AGAIN_LIST (timeout s)))"
    by (simp add: callSettled_retry[OF r])
  show "snd (tryExecuteCall (fst (callSettled call (Rejected err) s))) = [MethodCall call]"
    using assms by (simp add: callSettled_retry[OF r] tryExecuteCall_def)
next
  assume "\<not> connectionRefused err"
  then show "callSettled call (Rejected err) s =
              (s\<lparr>callQueue := rest, timeout := 0, timeoutId := None\<rparr>,
               CallRejected call err # (case rest of [] \<Rightarrow> [] | nxt # _ \<Rightarrow> [MethodCall nxt]))"
    using assms by (simp add: callSettled_moveOn split: list.splits)
qed

text \<open>
  Claim C3 as stated fails for a DNS failure (ENOTFOUND) and for a timeout (ETIMEDOUT): the
  head call is removed and rejected, no timer is set, and the next call starts.
\<close>

theorem dns_failure_is_not_retried_counterexample:
  "callSettled \<lparr>methodName = ''registerPublisher'', data = ''/chatter''\<rparr>
       (XmlrpcCall_call (TransportError (JsError (Some ''ENOTFOUND''))))
       \<lparr>callQueue = [\<lparr>methodName = ''registerPublisher'', data = ''/chatter''\<rparr>,
                     \<lparr>methodName = ''lookupService'', data = ''/add''\<rparr>], timeout = 0, timeoutId = None\<rparr>
     = (\<lparr>callQueue = [\<lparr>methodName = ''lookupService'', data = ''/add''\<rparr>], timeout = 0, timeoutId = None\<rparr>,
        [CallRejected \<lparr>methodName = ''registerPublisher'', data = ''/chatter''\<rparr> (Some (JsError (Some ''ENOTFOUND''))),
         MethodCall \<lparr>methodName = ''lookupService'', data = ''/add''\<rparr>])
   \<and> callSettled \<lparr>methodName = ''registerPublisher'', data = ''/chatter''\<rparr>
       (XmlrpcCall_call (TransportError (JsError (Some ''ETIMEDOUT''))))
       \<lparr>callQueue = [\<lparr>methodName = ''registerPublisher'', data = ''/chatter''\<rparr>,
                     \<lparr>methodName = ''lookupService'', data = ''/add''\<rparr>], timeout = 0, timeoutId = None\<rparr>
     = (\<lparr>callQueue = [\<lparr>methodName = ''lookupService'', data = ''/add''\<rparr>], timeout = 0, timeoutId = None\<rparr>,
        [CallRejected \<lparr>methodName = ''registerPublisher'', data = ''/chatter''\<rparr> (Some (JsError (Some ''ETIMEDOUT''))),
         MethodCall \<lparr>methodName = ''lookupService'', data = ''/add''\<rparr>])"
  by (simp add: callSettled_def XmlrpcCall_call_def connectionRefused_def CONNECTION_REFUSED_def
        resetTimeout_def shiftQueue_def shift_def tryExecuteCall_def)

text \<open>
  A refused head call is kept and a 1 ms timer is set; a head call answered with a status
  other than 1 is rejected and the next call starts.
\<close>

theorem retry_only_on_connection_refused_witness:
  "callSettled \<lparr>methodName = ''registerPublisher'', data = ''/chatter''\<rparr>
       (Rejected (Some (JsError (Some ''ECONNREFUSED''))))
       \<lparr>callQueue = [\<lparr>methodName = ''registerPublisher'', data = ''/chatter''\<rparr>,
                     \<lparr>methodName = ''lookupService'', data = ''/add''\<rparr>], timeout = 0, timeoutId = None\<rparr>
     = (\<lparr>callQueue = [\<lparr>methodName = ''registerPublisher'', data = ''/chatter''\<rparr>,
                      \<lparr>methodName = ''lookupService'', data = ''/add''\<rparr>], timeout = 1, timeoutId = Some (Timer (Some 1))\<rparr>,
        [SetTimeout (Some 1)])
   \<and> callSettled \<lparr>methodName = ''registerPublisher'', data = ''/chatter''\<rparr>
       (Rejected None)
       \<lparr>callQueue = [\<lparr>methodName = ''registerPublisher'', data = ''/chatter''\<rparr>,
                     \<lparr>methodName = ''lookupService'', data = ''/add''\<rparr>], timeout = 3, timeoutId = Some (Timer (Some 2))\<rparr>
     = (\<lparr>callQueue = [\<lparr>methodName = ''lookupService'', data = ''/add''\<rparr>], timeout = 0, timeoutId = None\<rparr>,
        [CallRejected \<lparr>methodName = ''registerPublisher'', data = ''/chatter''\<rparr> None,
         MethodCall \<lparr>methodName = ''lookupService'', data = ''/add''\<rparr>])"
  using retry_only_on_connection_refused[of
          "\<lparr>callQueue = [\<lparr>methodName = ''registerPublisher'', data = ''/chatter''\<rparr>,
                     \<lparr>methodName = ''lookupService'', data = ''/add''\<rparr>], timeout = 0, timeoutId = None\<rparr>"
          "\<lparr>methodName = ''registerPublisher'', data = ''/chatter''\<rparr>"
          "[\<lparr>methodName = ''lookupService'', data = ''/add''\<rparr>]"
          "Some (JsError (Some ''ECONNREFUSED''))"]
        retry_only_on_connection_refused[of
          "\<lparr>callQueue = [\<lparr>methodName = ''registerPublisher'', data = ''/chatter''\<rparr>,
                     \<lparr>methodName = ''lookupService'', data = ''/add''\<rparr>], timeout = 3, timeoutId = Some (Timer (Some 2))\<rparr>"
          "\<lparr>methodName = ''registerPublisher'', data = ''/chatter''\<rparr>"
          "[\<lparr>methodName = ''lookupService'', data = ''/add''\<rparr>]"
          "None"]
  by (simp add: callSettled_def connectionRefused_def CONNECTION_REFUSED_def
        resetTimeout_def shiftQueue_def shift_def tryExecuteCall_def scheduleTryAgain_def js_index_def
        TRY_AGAIN_LIST_def Let_def)

section \<open>Properties of the service client\<close>

lemma isReject_simps [simp]:
  "isReject (RejectCall c r)" "\<not> isReject (LookupService c)"
  "\<not> isReject (UseCachedSocket c)" "\<not> isReject (WarnService w)" "\<not> isReject NextTick"
  by (simp_all add: isReject_def)

lemma started_simps [simp]:
  "started [] = []"
  "started (RejectCall c r # es) = started es"
  "started (LookupService c # es) = c # started es"
  "started (UseCachedSocket c # es) = c # started es"
  "started (WarnService w # es) = started es"
  "started (NextTick # es) = started es"
  by (simp_all add: started_def)

lemma started_append [simp]: "started (es @ fs) = started es @ started fs"
  by (simp add: started_def)

lemma executeCall_no_reject: "filter isReject (snd (executeCall s)) = []"
  by (simp add: executeCall_def split: list.splits)

text \<open>
  On an empty queue \<^verbatim>\<open>call\<close> starts the new call at once, whether or not another call
  is in flight: the test \<^verbatim>\<open>this._callQueue.length === 1\<close> sees only the new call, and
  \<^verbatim>\<open>_executeCall\<close> removes it again. The queue is empty afterwards.
\<close>

lemma serviceCall_from_idle:
  "serviceCallQueue s = [] \<Longrightarrow>
   serviceCall req s =
     (s\<lparr>calling := True\<rparr>,
      [if \<not> persist s \<or> serviceClient s = None then LookupService \<lparr>request = req\<rparr>
       else UseCachedSocket \<lparr>request = req\<rparr>])"
  by (auto simp: serviceCall_def executeCall_def Let_def)

lemma serviceEvent_from_idle:
  assumes "serviceCallQueue s = []"
  shows "serviceCallQueue (fst (serviceEvent ev s)) = []"
    and "filter isReject (snd (serviceEvent ev s)) = []"
    and "started (snd (serviceEvent ev s)) = (case ev of CallEvent req \<Rightarrow> [\<lparr>request = req\<rparr>] | _ \<Rightarrow> [])"
  using assms
  by (cases ev; simp add: serviceCall_from_idle executeCall_def scheduleNextCall_def Let_def)+

lemma serviceEvents_Cons:
  "serviceEvents (ev # evs) s =
     (fst (serviceEvents evs (fst (serviceEvent ev s))),
      snd (serviceEvent ev s) @ snd (serviceEvents evs (fst (serviceEvent ev s))))"
  by (simp add: case_prod_beta)

lemma serviceEvents_from_idle:
  "serviceCallQueue s = [] \<Longrightarrow>
   serviceCallQueue (fst (serviceEvents evs s)) = []
   \<and> filter isReject (snd (serviceEvents evs s)) = []
   \<and> started (snd (serviceEvents evs s))
       = concat (map (\<lambda>ev. case ev of CallEvent req \<Rightarrow> [\<lparr>request = req\<rparr>] | _ \<Rightarrow> []) evs)"
proof (induction evs arbitrary: s)
  case Nil
  then show ?case by simp
next
  case (Cons ev evs)
  note step = serviceEvent_from_idle[OF Cons.prems, of ev]
  note ih = Cons.IH[OF step(1)]
  show ?case
    using step ih by (simp add: serviceEvents_Cons del: serviceEvents.simps(2))
qed

text \<open>
  Claim C7, on the code. Whatever the bound given to the constructor and whatever happens
  to the client afterwards (calls, calls ending, ticks, sockets connecting and ending,
  \<^verbatim>\<open>close\<close>), the queue is empty after every event, no call is ever rejected, and the
  calls started are all the calls made, in order: a call never waits for the call in
  flight, so appending a call never makes the queue longer than a bound, and the branch
  that rejects the oldest queued call is never taken.
\<close>

theorem calls_never_wait_and_none_is_rejected:
  "serviceCallQueue (fst (serviceEvents evs (new_ServiceClient persistOpt queueLength))) = []
   \<and> filter isReject (snd (serviceEvents evs (new_ServiceClient persistOpt queueLength))) = []
   \<and> started (snd (serviceEvents evs (new_ServiceClient persistOpt queueLength)))
       = concat (map (\<lambda>ev. case ev of CallEvent req \<Rightarrow> [\<lparr>request = req\<rparr>] | _ \<Rightarrow> []) evs)"
  by (rule serviceEvents_from_idle) (simp add: new_ServiceClient_def)

text \<open>
  A client with the bound 1 receives the calls a, b and c before any of them has ended:
  the three calls are started one after the other, the queue is empty, and nothing is
  rejected.
\<close>

theorem calls_never_wait_and_none_is_rejected_witness:
  "serviceEvents [CallEvent ''a'', CallEvent ''b'', CallEvent ''c''] (new_ServiceClient False (Some 1))
     = (\<lparr>persist = False, maxQueueLength = 1, calling = True, serviceClient = None,
         serviceCallQueue = []\<rparr>,
        [LookupService \<lparr>request = ''a''\<rparr>, LookupService \<lparr>request = ''b''\<rparr>,
         LookupService \<lparr>request = ''c''\<rparr>])
   \<and> filter isReject (snd (serviceEvents [CallEvent ''a'', CallEvent ''b'', CallEvent ''c'']
                              (new_ServiceClient False (Some 1)))) = []"
  using calls_never_wait_and_none_is_rejected[of "[CallEvent ''a'', CallEvent ''b'', CallEvent ''c'']"
          False "Some 1"]
  by (simp add: new_ServiceClient_def serviceCall_def executeCall_def Let_def)

section \<open>Properties of the wire codec and of the header utilities\<close>

lemma length_u32_bytes [simp]: "length (u32_bytes n) = 4"
  by (simp add: u32_bytes_def)

lemma bindE_simps [simp]: "bindE (Inl e) f = Inl e" "bindE (Inr x) f = f x"
  by (simp_all add: bindE_def)

lemma Serialize_string_at:
  "length pre = off \<Longrightarrow> length fill = 4 + length str \<Longrightarrow>
   Serialize_string str (pre @ fill @ post) off =
     Inr (pre @ u32_bytes (length str) @ map byte_of_char str @ post, off + 4 + length str)"
  by (simp add: Serialize_string_def Serialize_uint32_def buf_write_def)

lemma Serialize_uint32_at:
  "length pre = off \<Longrightarrow> length fill = 4 \<Longrightarrow>
   Serialize_uint32 v (pre @ fill @ post) off = Inr (pre @ u32_bytes v @ post, off + 4)"
  by (simp add: Serialize_uint32_def buf_write_def)

lemma Serialize_uint8_at:
  "length pre = off \<Longrightarrow>
   Serialize_uint8 v (pre @ x # post) off = Inr (pre @ word_of_nat v # post, off + 1)"
  by (simp add: Serialize_uint8_def buf_write_def)

lemma serializeString_eq:
  "serializeString str = Inr (u32_bytes (length str) @ map byte_of_char str)"
  using Serialize_string_at[of "[]" 0 "replicate (length str + 4) 0" str "[]"]
  by (simp add: serializeString_def new_Buffer_def)

lemma unat_byte: "unat (word_of_nat n :: byte) = n mod 256"
  by (simp add: unat_of_nat)

lemma u32_roundtrip: "n < 2 ^ 32 \<Longrightarrow> u32_of_bytes (u32_bytes n @ rest) = n"
proof -
  assume n: "n < 2 ^ 32"
  define d1 where "d1 = n div 256"
  define d2 where "d2 = d1 div 256"
  define d3 where "d3 = d2 div 256"
  have e2: "n div 65536 = d2" and e3: "n div 16777216 = d3"
    by (simp_all add: d1_def d2_def d3_def div_mult2_eq[symmetric])
  have "d3 < 256" using n unfolding e3[symmetric] by simp
  then have m3: "d3 mod 256 = d3" by simp
  have s0: "n = n mod 256 + 256 * d1" by (simp add: d1_def)
  have s1: "d1 = d1 mod 256 + 256 * d2" by (simp add: d2_def)
  have s2: "d2 = d2 mod 256 + 256 * d3" by (simp add: d3_def)
  have "n mod 256 + 256 * (d1 mod 256) + 65536 * (d2 mod 256) + 16777216 * d3 = n"
    using s0 s1 s2 by linarith
  then show ?thesis
    by (simp add: u32_of_bytes_def u32_bytes_def unat_byte e2 e3 m3 d1_def[symmetric])
qed

lemma length_encString [simp]: "length (encString s) = 4 + length s"
  by (simp add: encString_def)

lemma serializeString_enc: "serializeString str = Inr (encString str)"
  by (simp add: serializeString_eq encString_def)

lemma fold_field_lengths:
  "fold (\<lambda>field l. l + (length field + 4)) flds a = a + length (concat (map encString flds))"
  by (induction flds arbitrary: a) simp_all

lemma writeFields_at:
  "length pre = off \<Longrightarrow> length fill = length (concat (map encString flds)) \<Longrightarrow>
   writeFields flds (pre @ fill @ post) off =
     Inr (pre @ concat (map encString flds) @ post, off + length (concat (map encString flds)))"
proof (induction flds arbitrary: pre off fill)
  case Nil
  then show ?case by simp
next
  case (Cons f flds)
  let ?n = "4 + length f"
  have fill: "fill = take ?n fill @ drop ?n fill" by simp
  have l1: "length (take ?n fill) = 4 + length f" using Cons.prems(2) by simp
  have lf: "length fill = 4 + length f + length (concat (map encString flds))"
    using Cons.prems(2) by simp
  have l2: "length (drop ?n fill) = length (concat (map encString flds))"
    using lf by simp
  have s: "Serialize_string f (pre @ take ?n fill @ (drop ?n fill @ post)) off =
      Inr (pre @ u32_bytes (length f) @ map byte_of_char f @ (drop ?n fill @ post), off + 4 + length f)"
    by (rule Serialize_string_at[OF Cons.prems(1) l1])
  have w: "writeFields flds ((pre @ encString f) @ drop ?n fill @ post) (off + 4 + length f) =
      Inr ((pre @ encString f) @ concat (map encString flds) @ post,
           (off + 4 + length f) + length (concat (map encString flds)))"
    by (rule Cons.IH) (simp_all add: Cons.prems(1) lf)
  have "writeFields (f # flds) (pre @ fill @ post) off =
        writeFields (f # flds) (pre @ take ?n fill @ (drop ?n fill @ post)) off"
    using fill by (metis append.assoc)
  also have "\<dots> = writeFields flds ((pre @ encString f) @ drop ?n fill @ post) (off + 4 + length f)"
    by (simp add: s encString_def)
  also note w
  finally show ?case by (simp add: add.assoc)
qed

lemma serializeStringFields_eq:
  "serializeStringFields flds =
     Inr (u32_bytes (length (concat (map encString flds))) @ concat (map encString flds))"
proof -
  let ?n = "length (concat (map encString flds))"
  have b: "new_Buffer (4 + ?n) = [] @ replicate 4 0 @ replicate ?n 0"
    by (simp add: new_Buffer_def replicate_add)
  have u: "Serialize_uint32 ?n (new_Buffer (4 + ?n)) 0 = Inr ([] @ u32_bytes ?n @ replicate ?n 0, 0 + 4)"
    unfolding b by (rule Serialize_uint32_at) simp_all
  have w: "writeFields flds (u32_bytes ?n @ replicate ?n 0 @ []) 4 =
      Inr (u32_bytes ?n @ concat (map encString flds) @ [], 4 + ?n)"
    by (rule writeFields_at) simp_all
  show ?thesis
    using u w by (simp add: serializeStringFields_def fold_field_lengths)
qed

lemma MessageClass_serialize_at:
  "wire mc v = Inr bs \<Longrightarrow> length pre = off \<Longrightarrow> length fill = length bs \<Longrightarrow>
   MessageClass_serialize mc v (pre @ fill @ post) off = Inr (pre @ bs @ post)"
  by (simp add: MessageClass_serialize_def buf_write_def)

lemma serializeMessage_eq:
  assumes "wire mc v = Inr bs" and "length bs = getMessageSize mc v"
  shows "serializeMessage mc v True = Inr (u32_bytes (length bs) @ bs)"
proof -
  let ?n = "length bs"
  have b: "new_Buffer (?n + 4) = [] @ replicate 4 0 @ replicate ?n 0"
    by (simp add: new_Buffer_def replicate_add[symmetric] add.commute)
  have u: "Serialize_uint32 ?n (new_Buffer (?n + 4)) 0 = Inr ([] @ u32_bytes ?n @ replicate ?n 0, 0 + 4)"
    unfolding b by (rule Serialize_uint32_at) simp_all
  have m: "MessageClass_serialize mc v (u32_bytes ?n @ replicate ?n 0 @ []) 4 = Inr (u32_bytes ?n @ bs @ [])"
    by (rule MessageClass_serialize_at[OF assms(1)]) simp_all
  show ?thesis using u m assms(2) by (simp add: serializeMessage_def)
qed

lemma serializeMessage_throws:
  "wire mc v = Inl e \<Longrightarrow> serializeMessage mc v True = Inl e"
  by (simp add: serializeMessage_def Serialize_uint32_def buf_write_def new_Buffer_def
        MessageClass_serialize_def)

text \<open>
  Claim C8. With the response information prepended (the default), a successful response
  whose class writes the \<open>getMessageSize\<close> bytes \<open>bs\<close> is serialized as the byte 1, the
  \<open>u32\<close> little-endian length of \<open>bs\<close>, then \<open>bs\<close>; a failed response as the byte 0,
  the \<open>u32\<close> little-endian length of the text "Unable to handle service call", then the
  bytes of that text. \<open>u32_bytes\<close> is the little-endian encoding: \<open>u32_of_bytes\<close> reads
  the number back.
\<close>

theorem service_response_layout:
  "(wire rc resp = Inr bs \<and> length bs = getMessageSize rc resp \<longrightarrow>
      serializeServiceResponse rc resp True True = Inr ([1] @ u32_bytes (length bs) @ bs))
   \<and> serializeServiceResponse rc resp False True =
       Inr ([0] @ u32_bytes (length ''Unable to handle service call'')
                @ map byte_of_char ''Unable to handle service call'')
   \<and> (n < 2 ^ 32 \<longrightarrow> u32_of_bytes (u32_bytes n) = n)"
proof (intro conjI impI)
  assume a: "wire rc resp = Inr bs \<and> length bs = getMessageSize rc resp"
  let ?n = "length bs"
  have b: "new_Buffer (?n + 5) = [] @ 0 # (replicate 4 0 @ replicate ?n 0)"
    by (simp add: new_Buffer_def replicate_add[symmetric] add.commute flip: replicate_Suc)
  have s1: "Serialize_uint8 1 (new_Buffer (?n + 5)) 0 = Inr ([] @ word_of_nat 1 # (replicate 4 0 @ replicate ?n 0), 0 + 1)"
    unfolding b by (rule Serialize_uint8_at) simp
  have s2: "Serialize_uint32 ?n ([1] @ replicate 4 0 @ replicate ?n 0) 1 = Inr ([1] @ u32_bytes ?n @ replicate ?n 0, 1 + 4)"
    by (rule Serialize_uint32_at) simp_all
  have s3: "MessageClass_serialize rc resp (([1] @ u32_bytes ?n) @ replicate ?n 0 @ []) 5 = Inr (([1] @ u32_bytes ?n) @ bs @ [])"
    by (rule MessageClass_serialize_at) (simp_all add: a)
  show "serializeServiceResponse rc resp True True = Inr ([1] @ u32_bytes (length bs) @ bs)"
    using a s1 s2 s3 by (simp add: serializeServiceResponse_def)
next
  show "serializeServiceResponse rc resp False True =
       Inr ([0] @ u32_bytes (length ''Unable to handle service call'')
                @ map byte_of_char ''Unable to handle service call'')"
    by (simp add: serializeServiceResponse_def new_Buffer_def Serialize_uint8_def
          Serialize_string_def Serialize_uint32_def buf_write_def)
next
  assume "n < 2 ^ 32"
  then show "u32_of_bytes (u32_bytes n) = n" using u32_roundtrip[of n "[]"] by simp
qed

text \<open>
  The response "ok" of a string-valued service: byte 1, length 6, then the six bytes of the
  serialized string.
\<close>

theorem service_response_layout_witness:
  "serializeServiceResponse StringMessage ''ok'' True True
     = Inr ([1] @ u32_bytes 6 @ encString ''ok'')
   \<and> u32_of_bytes (u32_bytes 6) = 6
   \<and> u32_bytes 6 = [6, 0, 0, 0]"
  using service_response_layout[of StringMessage "''ok''" "encString ''ok''" 6]
  by (simp add: StringMessage_def u32_bytes_def)

section \<open>Properties of the publisher\<close>

lemma validateSubHeader_own_hasOwnProperty:
  "hdr ''hasOwnProperty'' = Some v \<Longrightarrow>
   validateSubHeader hdr topic typ md5 = Inl (TypeError ''header.hasOwnProperty is not a function'')"
  by (simp add: validateSubHeader_def)



text \<open>
  The error block of \<^verbatim>\<open>validateSubHeader\<close> is a message text as a string on the wire;
  the text starts with "Connection header missing" or "Got incorrect", never with
  \<open>error=\<close>.
\<close>

lemma validateSubHeader_text:
  "validateSubHeader hdr topic typ md5 = Inr (Some e) \<Longrightarrow>
   \<exists>errText. e = encString errText \<and> take 6 errText \<noteq> ''error=''"
  by (auto simp: validateSubHeader_def serializeString_enc split: option.splits if_splits)

lemma createPubHeader_eq:
  "createPubHeader c m t l =
     Inr (u32_bytes (length (concat (map encString
            [callerIdPrefix @ c, md5Prefix @ m, typePrefix @ t, latchingPrefix @ js_string_of_bool l])))
          @ concat (map encString
            [callerIdPrefix @ c, md5Prefix @ m, typePrefix @ t, latchingPrefix @ js_string_of_bool l]))"
  unfolding createPubHeader_def by (rule serializeStringFields_eq)


lemma handleSubscriberConnection_accepted:
  "validateSubHeader hdr (pub_topic p) (pub_type p) (md5sum (messageHandler p)) = Inr None \<Longrightarrow>
   createPubHeader (nodeName p) (md5sum (messageHandler p)) (pub_type p) (latching p) = Inr respHeader \<Longrightarrow>
   handleSubscriberConnection subscriber hdr p =
     Inr (p\<lparr>subClients := AList.update subscriber subscriber (subClients p)\<rparr>,
          [SockWrite subscriber respHeader]
          @ (if tcpNoDelay p then [SockSetNoDelay subscriber True] else [])
          @ [SockOn subscriber ''close'', SockOn subscriber ''end'', SockOn subscriber ''error'']
          @ (case lastSentMsg p of None \<Rightarrow> [] | Some m \<Rightarrow> [SockWrite subscriber m])
          @ [Emit ''connection''])"
  by (simp add: handleSubscriberConnection_def)

text \<open>
  A header with a field of its own named \<^verbatim>\<open>hasOwnProperty\<close> makes
  \<^verbatim>\<open>handleSubscriberConnection\<close> throw before anything is written to the socket.
\<close>

lemma handleSubscriberConnection_own_hasOwnProperty:
  "hdr ''hasOwnProperty'' = Some v \<Longrightarrow>
   handleSubscriberConnection subscriber hdr p =
     Inl (TypeError ''header.hasOwnProperty is not a function'')"
  by (simp add: handleSubscriberConnection_def validateSubHeader_own_hasOwnProperty)




lemma publishOne_fields [simp]:
  "latching (fst (publishOne m p)) = latching p"
  "messageHandler (fst (publishOne m p)) = messageHandler p"
  "pub_resolve (fst (publishOne m p)) = pub_resolve p"
  "pub_topic (fst (publishOne m p)) = pub_topic p"
  "pub_type (fst (publishOne m p)) = pub_type p"
  "nodeName (fst (publishOne m p)) = nodeName p"
  "tcpNoDelay (fst (publishOne m p)) = tcpNoDelay p"
  "subClients (fst (publishOne m p)) = subClients p"
  by (simp_all add: publishOne_def Let_def split: sum.splits)

lemma resolveMsg_publishOne [simp]: "resolveMsg (fst (publishOne m p)) = resolveMsg p"
  by (rule ext) (simp add: resolveMsg_def)

lemma handleMsgQueue_Cons:
  "Publisher_handleMsgQueue (m # ms) p =
     (fst (Publisher_handleMsgQueue ms (fst (publishOne m p))),
      snd (publishOne m p) @ snd (Publisher_handleMsgQueue ms (fst (publishOne m p))))"
  by (simp add: case_prod_beta)

lemma handleMsgQueue_fields [simp]:
  "latching (fst (Publisher_handleMsgQueue ms p)) = latching p"
  "messageHandler (fst (Publisher_handleMsgQueue ms p)) = messageHandler p"
  "pub_resolve (fst (Publisher_handleMsgQueue ms p)) = pub_resolve p"
  "pub_topic (fst (Publisher_handleMsgQueue ms p)) = pub_topic p"
  "pub_type (fst (Publisher_handleMsgQueue ms p)) = pub_type p"
  "nodeName (fst (Publisher_handleMsgQueue ms p)) = nodeName p"
  "tcpNoDelay (fst (Publisher_handleMsgQueue ms p)) = tcpNoDelay p"
  "subClients (fst (Publisher_handleMsgQueue ms p)) = subClients p"
  by (induction ms arbitrary: p; simp add: handleMsgQueue_Cons del: Publisher_handleMsgQueue.simps(2))+

lemma publishOne_latches:
  assumes "latching p"
    and "wire (messageHandler p) (resolveMsg p m) = Inr bs"
    and "length bs = getMessageSize (messageHandler p) (resolveMsg p m)"
  shows "lastSentMsg (fst (publishOne m p)) = Some (u32_bytes (length bs) @ bs)"
  using assms serializeMessage_eq[OF assms(2,3)]
  by (simp add: publishOne_def Let_def)

lemma handleMsgQueue_latches:
  assumes "latching p" and "msgs \<noteq> []"
    and "wire (messageHandler p) (resolveMsg p (last msgs)) = Inr bs"
    and "length bs = getMessageSize (messageHandler p)
            (resolveMsg p (last msgs))"
  shows "lastSentMsg (fst (Publisher_handleMsgQueue msgs p)) = Some (u32_bytes (length bs) @ bs)"
  using assms
proof (induction msgs arbitrary: p)
  case Nil
  then show ?case by simp
next
  case (Cons m ms)
  show ?case
  proof (cases "ms = []")
    case True
    then have lm: "last (m # ms) = m" by simp
    have "lastSentMsg (fst (publishOne m p)) = Some (u32_bytes (length bs) @ bs)"
      using Cons.prems(1,3,4) unfolding lm by (rule publishOne_latches)
    then show ?thesis using True by (simp add: case_prod_beta)
  next
    case False
    have "lastSentMsg (fst (Publisher_handleMsgQueue ms (fst (publishOne m p)))) = Some (u32_bytes (length bs) @ bs)"
      by (rule Cons.IH) (use False Cons.prems in simp_all)
    then show ?thesis by (simp add: handleMsgQueue_Cons del: Publisher_handleMsgQueue.simps(2))
  qed
qed

text \<open>
  \<^verbatim>\<open>publish\<close> with a negative throttle handles the message at once; with any other
  throttle (the default is 0) it only queues the message at the spinner: nothing is written
  and \<^verbatim>\<open>_lastSentMsg\<close> is as it was.
\<close>

lemma publish_synchronous:
  "(case throttleOpt of None \<Rightarrow> pub_throttleMs p | Some t \<Rightarrow> t) < 0 \<Longrightarrow>
   publish m throttleOpt (p, spinner) =
     Inr ((fst (Publisher_handleMsgQueue [m] p), spinner), snd (Publisher_handleMsgQueue [m] p))"
  by (cases throttleOpt) (simp_all add: publish_def case_prod_beta)

lemma publish_queued:
  "0 \<le> (case throttleOpt of None \<Rightarrow> pub_throttleMs p | Some t \<Rightarrow> t) \<Longrightarrow>
   publish m throttleOpt (p, spinner) = Inr ((p', spinner'), es) \<Longrightarrow>
   p' = p \<and> es = [] \<and> ping (Publisher_getSpinnerId p) m spinner = Inr spinner'"
  by (cases throttleOpt) (auto simp: publish_def bindE_def split: sum.splits)

text \<open>
  Claim C6, as the code has it. A latching publisher has sent a non-empty batch of
  messages, that is, \<^verbatim>\<open>_handleMsgQueue\<close> has handled it, and the last message of the
  batch serializes (its class writes the \<open>getMessageSize\<close> bytes \<open>bs\<close>). Then
  \<^verbatim>\<open>_lastSentMsg\<close> is the frame of that last message, and a subscriber connecting next
  with a header that validates is written exactly two blocks: the publisher's response
  header, then that frame; it is then among the publisher's clients. A \<^verbatim>\<open>publish\<close>
  with a negative throttle is such a batch of one message, sent at once; a \<^verbatim>\<open>publish\<close>
  with another throttle leaves the publisher as it was and hands the message to the
  spinner, whose dispatch sends it later.
\<close>

theorem latched_message_first_frame:
  fixes p :: "'a Publisher" and spinner :: "(string, 'c, 'a) GlobalSpinner"
  assumes "latching p" and "msgs \<noteq> []"
    and "wire (messageHandler p) (resolveMsg p (last msgs)) = Inr bs"
    and "length bs = getMessageSize (messageHandler p)
            (resolveMsg p (last msgs))"
    and "validateSubHeader hdr (pub_topic p) (pub_type p) (md5sum (messageHandler p)) = Inr None"
  shows "lastSentMsg (fst (Publisher_handleMsgQueue msgs p)) = Some (u32_bytes (length bs) @ bs)
       \<and> (\<exists>respHeader p' es.
             createPubHeader (nodeName p) (md5sum (messageHandler p)) (pub_type p) True = Inr respHeader
           \<and> handleSubscriberConnection subscriber hdr (fst (Publisher_handleMsgQueue msgs p)) = Inr (p', es)
           \<and> writesTo subscriber es = [respHeader, u32_bytes (length bs) @ bs]
           \<and> map_of (subClients p') subscriber = Some subscriber)
       \<and> ((case throttleOpt of None \<Rightarrow> pub_throttleMs p | Some t \<Rightarrow> t) < 0 \<longrightarrow>
            publish m throttleOpt (p, spinner) =
              Inr ((fst (Publisher_handleMsgQueue [m] p), spinner),
                   snd (Publisher_handleMsgQueue [m] p)))
       \<and> (0 \<le> (case throttleOpt of None \<Rightarrow> pub_throttleMs p | Some t \<Rightarrow> t) \<longrightarrow>
            (\<forall>p' spinner' es. publish m throttleOpt (p, spinner) = Inr ((p', spinner'), es) \<longrightarrow>
               p' = p \<and> es = [] \<and> ping (Publisher_getSpinnerId p) m spinner = Inr spinner'))"
proof -
  let ?p1 = "fst (Publisher_handleMsgQueue msgs p)"
  have l: "lastSentMsg ?p1 = Some (u32_bytes (length bs) @ bs)"
    by (rule handleMsgQueue_latches[OF assms(1-4)])
  obtain respHeader where h:
    "createPubHeader (nodeName p) (md5sum (messageHandler p)) (pub_type p) True = Inr respHeader"
    using createPubHeader_eq by blast
  have v: "validateSubHeader hdr (pub_topic ?p1) (pub_type ?p1) (md5sum (messageHandler ?p1)) = Inr None"
    using assms(5) by simp
  have h1: "createPubHeader (nodeName ?p1) (md5sum (messageHandler ?p1)) (pub_type ?p1) (latching ?p1) = Inr respHeader"
    using h assms(1) by simp
  have c: "handleSubscriberConnection subscriber hdr ?p1 =
     Inr (?p1\<lparr>subClients := AList.update subscriber subscriber (subClients ?p1)\<rparr>,
          [SockWrite subscriber respHeader]
          @ (if tcpNoDelay ?p1 then [SockSetNoDelay subscriber True] else [])
          @ [SockOn subscriber ''close'', SockOn subscriber ''end'', SockOn subscriber ''error'']
          @ (case lastSentMsg ?p1 of None \<Rightarrow> [] | Some m \<Rightarrow> [SockWrite subscriber m])
          @ [Emit ''connection''])"
    by (rule handleSubscriberConnection_accepted[OF v h1])
  have w: "writesTo subscriber ([SockWrite subscriber respHeader]
          @ (if tcpNoDelay ?p1 then [SockSetNoDelay subscriber True] else [])
          @ [SockOn subscriber ''close'', SockOn subscriber ''end'', SockOn subscriber ''error'']
          @ (case lastSentMsg ?p1 of None \<Rightarrow> [] | Some m \<Rightarrow> [SockWrite subscriber m])
          @ [Emit ''connection'']) = [respHeader, u32_bytes (length bs) @ bs]"
    unfolding l by (simp add: writesTo_def)
  have mo: "map_of (subClients (?p1\<lparr>subClients := AList.update subscriber subscriber (subClients ?p1)\<rparr>)) subscriber
             = Some subscriber"
    by (simp add: update_conv')
  have s: "(case throttleOpt of None \<Rightarrow> pub_throttleMs p | Some t \<Rightarrow> t) < 0 \<longrightarrow>
            publish m throttleOpt (p, spinner) =
              Inr ((fst (Publisher_handleMsgQueue [m] p), spinner),
                   snd (Publisher_handleMsgQueue [m] p))"
    using publish_synchronous[where throttleOpt = throttleOpt and p = p and m = m and spinner = spinner]
    by blast
  have q: "0 \<le> (case throttleOpt of None \<Rightarrow> pub_throttleMs p | Some t \<Rightarrow> t) \<longrightarrow>
            (\<forall>p' spinner' es. publish m throttleOpt (p, spinner) = Inr ((p', spinner'), es) \<longrightarrow>
               p' = p \<and> es = [] \<and> ping (Publisher_getSpinnerId p) m spinner = Inr spinner')"
    using publish_queued[where throttleOpt = throttleOpt and p = p and m = m and spinner = spinner]
    by blast
  from l h c w mo s q show ?thesis by blast
qed

text \<open>
  Claim C6 as stated fails for a latching publisher with the default throttle 0, where
  \<^verbatim>\<open>publish\<close> only queues. The publisher of \<^verbatim>\<open>/chatter\<close> publishes "A": nothing is
  sent and nothing is latched, and a subscriber connecting now is written the response
  header and no message. After the spinner's dispatch has sent "A", the publisher publishes
  "B": a subscriber connecting now is written the response header and then the frame of
  "A", which is not the frame of "B", the most recently published message.
\<close>

theorem queued_message_is_not_latched_counterexample:
  "publish ''A'' None (chatterPublisher, chatterSpinner)
     = Inr ((chatterPublisher,
             \<lparr>spinTimer = True, clientCallQueue = [''Publisher:///chatter''],
              clientQueueMap = [(''Publisher:///chatter'',
                 \<lparr>client = ''/talker'', queue = [''A''], queueSize = 1, throttleMs = 0,
                  handleTime = None\<rparr>)]\<rparr>),
            [])
   \<and> handleSubscriberConnection ''10.0.0.2:5000''
       [''topic'' \<mapsto> ''/chatter'', ''type'' \<mapsto> ''std_msgs/String'',
        ''md5sum'' \<mapsto> ''992ce8a1687cec8c8bd883ec73ca41d1'']
       chatterPublisher
     = Inr (chatterPublisher\<lparr>subClients := [(''10.0.0.2:5000'', ''10.0.0.2:5000'')]\<rparr>,
            [SockWrite ''10.0.0.2:5000''
               (u32_bytes 104 @ encString ''callerid=/talker''
                  @ encString ''md5sum=992ce8a1687cec8c8bd883ec73ca41d1''
                  @ encString ''type=std_msgs/String'' @ encString ''latching=true''),
             SockOn ''10.0.0.2:5000'' ''close'', SockOn ''10.0.0.2:5000'' ''end'',
             SockOn ''10.0.0.2:5000'' ''error'', Emit ''connection''])
   \<and> handleQueue 10
       \<lparr>spinTimer = True, clientCallQueue = [''Publisher:///chatter''],
        clientQueueMap = [(''Publisher:///chatter'',
           \<lparr>client = ''/talker'', queue = [''A''], queueSize = 1, throttleMs = 0,
            handleTime = None\<rparr>)]\<rparr>
     = Inr ([(''/talker'', [''A''])],
            \<lparr>spinTimer = False, clientCallQueue = [],
             clientQueueMap = [(''Publisher:///chatter'',
               \<lparr>client = ''/talker'', queue = [], queueSize = 1, throttleMs = 0,
                handleTime = Some 10\<rparr>)]\<rparr>)
   \<and> Publisher_handleMsgQueue [''A''] chatterPublisher
     = (chatterPublisher\<lparr>lastSentMsg := Some (u32_bytes 5 @ encString ''A'')\<rparr>, [])
   \<and> publish ''B'' None
       (chatterPublisher\<lparr>lastSentMsg := Some (u32_bytes 5 @ encString ''A'')\<rparr>,
        \<lparr>spinTimer = False, clientCallQueue = [],
         clientQueueMap = [(''Publisher:///chatter'',
           \<lparr>client = ''/talker'', queue = [], queueSize = 1, throttleMs = 0,
            handleTime = Some 10\<rparr>)]\<rparr>)
     = Inr ((chatterPublisher\<lparr>lastSentMsg := Some (u32_bytes 5 @ encString ''A'')\<rparr>,
             \<lparr>spinTimer = True, clientCallQueue = [''Publisher:///chatter''],
              clientQueueMap = [(''Publisher:///chatter'',
                 \<lparr>client = ''/talker'', queue = [''B''], queueSize = 1, throttleMs = 0,
                  handleTime = Some 10\<rparr>)]\<rparr>),
            [])
   \<and> handleSubscriberConnection ''10.0.0.2:5000''
       [''topic'' \<mapsto> ''/chatter'', ''type'' \<mapsto> ''std_msgs/String'',
        ''md5sum'' \<mapsto> ''992ce8a1687cec8c8bd883ec73ca41d1'']
       (chatterPublisher\<lparr>lastSentMsg := Some (u32_bytes 5 @ encString ''A'')\<rparr>)
     = Inr (chatterPublisher\<lparr>lastSentMsg := Some (u32_bytes 5 @ encString ''A''),
                             subClients := [(''10.0.0.2:5000'', ''10.0.0.2:5000'')]\<rparr>,
            [SockWrite ''10.0.0.2:5000''
               (u32_bytes 104 @ encString ''callerid=/talker''
                  @ encString ''md5sum=992ce8a1687cec8c8bd883ec73ca41d1''
                  @ encString ''type=std_msgs/String'' @ encString ''latching=true''),
             SockOn ''10.0.0.2:5000'' ''close'', SockOn ''10.0.0.2:5000'' ''end'',
             SockOn ''10.0.0.2:5000'' ''error'',
             SockWrite ''10.0.0.2:5000'' (u32_bytes 5 @ encString ''A''),
             Emit ''connection''])
   \<and> u32_bytes 5 @ encString ''A'' \<noteq> u32_bytes 5 @ encString ''B''"
proof (intro conjI)
  show "publish ''A'' None (chatterPublisher, chatterSpinner)
     = Inr ((chatterPublisher,
             \<lparr>spinTimer = True, clientCallQueue = [''Publisher:///chatter''],
              clientQueueMap = [(''Publisher:///chatter'',
                 \<lparr>client = ''/talker'', queue = [''A''], queueSize = 1, throttleMs = 0,
                  handleTime = None\<rparr>)]\<rparr>),
            [])"
    by (simp add: publish_def chatterSpinner_def chatterPublisher_def addClient_def
          new_ClientQueue_def new_GlobalSpinner_def Publisher_getSpinnerId_def ping_def
          queueMessage_def push_def setTimer_def set_add_def Let_def)
next
  show "handleSubscriberConnection ''10.0.0.2:5000''
       [''topic'' \<mapsto> ''/chatter'', ''type'' \<mapsto> ''std_msgs/String'',
        ''md5sum'' \<mapsto> ''992ce8a1687cec8c8bd883ec73ca41d1'']
       chatterPublisher
     = Inr (chatterPublisher\<lparr>subClients := [(''10.0.0.2:5000'', ''10.0.0.2:5000'')]\<rparr>,
            [SockWrite ''10.0.0.2:5000''
               (u32_bytes 104 @ encString ''callerid=/talker''
                  @ encString ''md5sum=992ce8a1687cec8c8bd883ec73ca41d1''
                  @ encString ''type=std_msgs/String'' @ encString ''latching=true''),
             SockOn ''10.0.0.2:5000'' ''close'', SockOn ''10.0.0.2:5000'' ''end'',
             SockOn ''10.0.0.2:5000'' ''error'', Emit ''connection''])"
    by (simp add: handleSubscriberConnection_def validateSubHeader_def serializeString_enc
        createPubHeader_eq chatterPublisher_def StringMessage_def callerIdPrefix_def md5Prefix_def
        typePrefix_def latchingPrefix_def js_string_of_bool_def)
next
  show "handleQueue 10
       \<lparr>spinTimer = True, clientCallQueue = [''Publisher:///chatter''],
        clientQueueMap = [(''Publisher:///chatter'',
           \<lparr>client = ''/talker'', queue = [''A''], queueSize = 1, throttleMs = 0,
            handleTime = None\<rparr>)]\<rparr>
     = Inr ([(''/talker'', [''A''])],
            \<lparr>spinTimer = False, clientCallQueue = [],
             clientQueueMap = [(''Publisher:///chatter'',
               \<lparr>client = ''/talker'', queue = [], queueSize = 1, throttleMs = 0,
                handleTime = Some 10\<rparr>)]\<rparr>)"
    by (simp add: handleQueue_def handleClientMessages_def getClientsWithQueuedMessages_def Let_def)
next
  show "Publisher_handleMsgQueue [''A''] chatterPublisher
     = (chatterPublisher\<lparr>lastSentMsg := Some (u32_bytes 5 @ encString ''A'')\<rparr>, [])"
    by (simp add: publishOne_def resolveMsg_def chatterPublisher_def StringMessage_def
          serializeMessage_eq)
next
  show "publish ''B'' None
       (chatterPublisher\<lparr>lastSentMsg := Some (u32_bytes 5 @ encString ''A'')\<rparr>,
        \<lparr>spinTimer = False, clientCallQueue = [],
         clientQueueMap = [(''Publisher:///chatter'',
           \<lparr>client = ''/talker'', queue = [], queueSize = 1, throttleMs = 0,
            handleTime = Some 10\<rparr>)]\<rparr>)
     = Inr ((chatterPublisher\<lparr>lastSentMsg := Some (u32_bytes 5 @ encString ''A'')\<rparr>,
             \<lparr>spinTimer = True, clientCallQueue = [''Publisher:///chatter''],
              clientQueueMap = [(''Publisher:///chatter'',
                 \<lparr>client = ''/talker'', queue = [''B''], queueSize = 1, throttleMs = 0,
                  handleTime = Some 10\<rparr>)]\<rparr>),
            [])"
    by (simp add: publish_def chatterPublisher_def Publisher_getSpinnerId_def ping_def
          queueMessage_def push_def setTimer_def set_add_def Let_def)
next
  show "handleSubscriberConnection ''10.0.0.2:5000''
       [''topic'' \<mapsto> ''/chatter'', ''type'' \<mapsto> ''std_msgs/String'',
        ''md5sum'' \<mapsto> ''992ce8a1687cec8c8bd883ec73ca41d1'']
       (chatterPublisher\<lparr>lastSentMsg := Some (u32_bytes 5 @ encString ''A'')\<rparr>)
     = Inr (chatterPublisher\<lparr>lastSentMsg := Some (u32_bytes 5 @ encString ''A''),
                             subClients := [(''10.0.0.2:5000'', ''10.0.0.2:5000'')]\<rparr>,
            [SockWrite ''10.0.0.2:5000''
               (u32_bytes 104 @ encString ''callerid=/talker''
                  @ encString ''md5sum=992ce8a1687cec8c8bd883ec73ca41d1''
                  @ encString ''type=std_msgs/String'' @ encString ''latching=true''),
             SockOn ''10.0.0.2:5000'' ''close'', SockOn ''10.0.0.2:5000'' ''end'',
             SockOn ''10.0.0.2:5000'' ''error'',
             SockWrite ''10.0.0.2:5000'' (u32_bytes 5 @ encString ''A''),
             Emit ''connection''])"
    by (simp add: handleSubscriberConnection_def validateSubHeader_def serializeString_enc
        createPubHeader_eq chatterPublisher_def StringMessage_def callerIdPrefix_def md5Prefix_def
        typePrefix_def latchingPrefix_def js_string_of_bool_def)
next
  show "u32_bytes 5 @ encString ''A'' \<noteq> u32_bytes 5 @ encString ''B''"
    by (simp add: encString_def byte_of_char_def)
qed

text \<open>
  The publisher of \<^verbatim>\<open>/chatter\<close> sends "B" then "A"; the next subscriber receives the
  response header and then the frame of "A". Published with the throttle -1, "A" is sent at
  once.
\<close>

theorem latched_message_first_frame_witness:
  "lastSentMsg (fst (Publisher_handleMsgQueue [''B'', ''A''] chatterPublisher))
     = Some (u32_bytes 5 @ encString ''A'')
   \<and> (\<exists>respHeader p' es.
         createPubHeader ''/talker'' ''992ce8a1687cec8c8bd883ec73ca41d1'' ''std_msgs/String'' True
           = Inr respHeader
       \<and> handleSubscriberConnection ''10.0.0.2:5000''
           [''topic'' \<mapsto> ''/chatter'', ''type'' \<mapsto> ''std_msgs/String'',
            ''md5sum'' \<mapsto> ''992ce8a1687cec8c8bd883ec73ca41d1'']
           (fst (Publisher_handleMsgQueue [''B'', ''A''] chatterPublisher)) = Inr (p', es)
       \<and> writesTo ''10.0.0.2:5000'' es = [respHeader, u32_bytes 5 @ encString ''A'']
       \<and> map_of (subClients p') ''10.0.0.2:5000'' = Some ''10.0.0.2:5000'')
   \<and> publish ''A'' (Some (- 1))
         (chatterPublisher, (new_GlobalSpinner :: (string, string, string) GlobalSpinner))
       = Inr ((fst (Publisher_handleMsgQueue [''A''] chatterPublisher), new_GlobalSpinner),
              snd (Publisher_handleMsgQueue [''A''] chatterPublisher))"
proof -
  have a: "latching chatterPublisher" by (simp add: chatterPublisher_def)
  have b: "[''B'', ''A''] \<noteq> []" by simp
  have c: "wire (messageHandler chatterPublisher)
             (resolveMsg chatterPublisher (last [''B'', ''A''])) = Inr (encString ''A'')"
    by (simp add: chatterPublisher_def StringMessage_def resolveMsg_def)
  have d: "length (encString ''A'') = getMessageSize (messageHandler chatterPublisher)
             (resolveMsg chatterPublisher (last [''B'', ''A'']))"
    by (simp add: chatterPublisher_def StringMessage_def resolveMsg_def)
  have e: "validateSubHeader
             [''topic'' \<mapsto> ''/chatter'', ''type'' \<mapsto> ''std_msgs/String'',
              ''md5sum'' \<mapsto> ''992ce8a1687cec8c8bd883ec73ca41d1'']
             (pub_topic chatterPublisher) (pub_type chatterPublisher)
             (md5sum (messageHandler chatterPublisher)) = Inr None"
    by (simp add: validateSubHeader_def chatterPublisher_def StringMessage_def)
  have f: "nodeName chatterPublisher = ''/talker''"
    "md5sum (messageHandler chatterPublisher) = ''992ce8a1687cec8c8bd883ec73ca41d1''"
    "pub_type chatterPublisher = ''std_msgs/String''" "length (encString ''A'') = 5"
    by (simp_all add: chatterPublisher_def StringMessage_def)
  note inst = latched_message_first_frame[OF a b c d e, where subscriber = "''10.0.0.2:5000''"
      and throttleOpt = "Some (- 1)" and m = "''A''"
      and spinner = "new_GlobalSpinner :: (string, string, string) GlobalSpinner", unfolded f]
  have g: "publish ''A'' (Some (- 1))
         (chatterPublisher, (new_GlobalSpinner :: (string, string, string) GlobalSpinner))
       = Inr ((fst (Publisher_handleMsgQueue [''A''] chatterPublisher), new_GlobalSpinner),
              snd (Publisher_handleMsgQueue [''A''] chatterPublisher))"
    using inst[THEN conjunct2, THEN conjunct2, THEN conjunct1] by simp
  from inst[THEN conjunct1] inst[THEN conjunct2, THEN conjunct1] g
  show ?thesis by blast
qed

section \<open>Properties of the subscriber\<close>

lemma isDeliver_simps [simp]:
  "isDeliver (Deliver v)" "\<not> isDeliver (SubEmit s)" "\<not> isDeliver (SubSockEnd k b)"
  "\<not> isDeliver (SubSockOn k s)" "\<not> isDeliver (SubLog s)"
  by (simp_all add: isDeliver_def)

lemma isSockEnd_simps [simp]:
  "\<not> isSockEnd (Deliver v)" "\<not> isSockEnd (SubEmit s)" "isSockEnd (SubSockEnd k b)"
  "\<not> isSockEnd (SubSockOn k s)" "\<not> isSockEnd (SubLog s)"
  by (simp_all add: isSockEnd_def)

text \<open>
  What \<^verbatim>\<open>_handleMessage\<close> does with a frame on a connection that is not initialized:
  the exception of the parser; or the log of the publisher's error field; or the
  \<^verbatim>\<open>TypeError\<close> of the call of \<^verbatim>\<open>TcprosUtils.validatePubHeader\<close>. The statements
  after that call are never reached.
\<close>

lemma handleMessage_uninitialized:
  "\<not> initialized pc \<Longrightarrow>
   Subscriber_handleMessage msg (pc, sub, spinner) =
     (case parseTcpRosHeader msg of
        Inl e \<Rightarrow> Inl e
      | Inr hdr \<Rightarrow>
          if truthy (hdr ''error'')
          then Inr ((pc, sub, spinner), [SubLog (case hdr ''error'' of None \<Rightarrow> [] | Some t \<Rightarrow> t)])
          else Inl (TypeError ''TcprosUtils.validatePubHeader is not a function''))"
  by (simp add: Subscriber_handleMessage_def validatePubHeader_def split: sum.splits)

lemma handleMessage_uninitialized_Inr:
  assumes "\<not> initialized pc"
    and "Subscriber_handleMessage msg (pc, sub, spinner) = Inr (st, es)"
  shows "st = (pc, sub, spinner) \<and> filter isDeliver es = [] \<and> filter isSockEnd es = []"
  using assms(2) unfolding handleMessage_uninitialized[OF assms(1)]
  by (auto split: sum.splits if_splits)

lemma handleMessages_uninitialized:
  assumes "\<not> initialized pc"
  shows "fst (handleMessages msgs (pc, sub, spinner)) = (pc, sub, spinner)
       \<and> filter isDeliver (fst (snd (handleMessages msgs (pc, sub, spinner)))) = []
       \<and> filter isSockEnd (fst (snd (handleMessages msgs (pc, sub, spinner)))) = []"
proof (induction msgs)
  case Nil
  then show ?case by simp
next
  case (Cons m ms)
  show ?case
  proof (cases "Subscriber_handleMessage m (pc, sub, spinner)")
    case (Inl e)
    then show ?thesis by simp
  next
    case (Inr r)
    obtain st es where r: "r = (st, es)" by (cases r) auto
    from handleMessage_uninitialized_Inr[OF assms Inr[unfolded r]]
    have a: "st = (pc, sub, spinner)" "filter isDeliver es = []" "filter isSockEnd es = []" by auto
    show ?thesis using Inr r a Cons.IH by (simp add: case_prod_beta)
  qed
qed

lemma char_of_byte_of_char [simp]: "char_of_byte (byte_of_char c) = c"
  by (simp add: char_of_byte_def byte_of_char_def unat_of_nat)

lemma char_of_byte_comp [simp]: "char_of_byte \<circ> byte_of_char = id"
  by (rule ext) simp

lemma deserializeString_encString:
  "length s < 2 ^ 32 \<Longrightarrow> deserializeString (encString s @ rest) = Inr (s, rest)"
  using u32_roundtrip[of "length s" "map byte_of_char s @ rest"]
  by (simp add: deserializeString_def Deserialize_string_def encString_def Let_def)

lemma parseTcpRosHeaderFrom_field:
  "length s < 2 ^ 32 \<Longrightarrow> matchField s = Some (k, v) \<Longrightarrow> k \<noteq> ''__proto__'' \<Longrightarrow>
   parseTcpRosHeaderFrom (encString s @ rest) info = parseTcpRosHeaderFrom rest (info(k \<mapsto> v))"
  by (subst parseTcpRosHeaderFrom.simps) (simp add: deserializeString_encString setProperty_def)

lemma matchField_examples:
  "matchField ''callerid=/talker'' = Some (''callerid'', ''/talker'')"
  "matchField ''md5sum=0123'' = Some (''md5sum'', ''0123'')"
  "matchField ''type=std_msgs/String'' = Some (''type'', ''std_msgs/String'')"
  "matchField ''latching=1'' = Some (''latching'', ''1'')"
  by (simp_all add: matchField_def matchLine_def isWordChar_def isLineTerminator_def
        List.map_filter_def)

lemma parse_mismatchedPubHeader:
  "parseTcpRosHeader mismatchedPubHeader =
     Inr [''callerid'' \<mapsto> ''/talker'', ''md5sum'' \<mapsto> ''0123'',
          ''type'' \<mapsto> ''std_msgs/String'', ''latching'' \<mapsto> ''1'']"
proof -
  have f1: "\<And>rest info. parseTcpRosHeaderFrom (encString ''callerid=/talker'' @ rest) info
              = parseTcpRosHeaderFrom rest (info(''callerid'' \<mapsto> ''/talker''))"
    by (rule parseTcpRosHeaderFrom_field) (simp_all add: matchField_examples)
  have f2: "\<And>rest info. parseTcpRosHeaderFrom (encString ''md5sum=0123'' @ rest) info
              = parseTcpRosHeaderFrom rest (info(''md5sum'' \<mapsto> ''0123''))"
    by (rule parseTcpRosHeaderFrom_field) (simp_all add: matchField_examples)
  have f3: "\<And>rest info. parseTcpRosHeaderFrom (encString ''type=std_msgs/String'' @ rest) info
              = parseTcpRosHeaderFrom rest (info(''type'' \<mapsto> ''std_msgs/String''))"
    by (rule parseTcpRosHeaderFrom_field) (simp_all add: matchField_examples)
  have f4: "\<And>rest info. parseTcpRosHeaderFrom (encString ''latching=1'' @ rest) info
              = parseTcpRosHeaderFrom rest (info(''latching'' \<mapsto> ''1''))"
    by (rule parseTcpRosHeaderFrom_field) (simp_all add: matchField_examples)
  have "parseTcpRosHeaderFrom (encString ''callerid=/talker'' @ encString ''md5sum=0123''
       @ encString ''type=std_msgs/String'' @ encString ''latching=1'' @ []) Map.empty
     = parseTcpRosHeaderFrom []
         [''callerid'' \<mapsto> ''/talker'', ''md5sum'' \<mapsto> ''0123'',
          ''type'' \<mapsto> ''std_msgs/String'', ''latching'' \<mapsto> ''1'']"
    by (simp only: f1 f2 f3 f4)
  then show ?thesis
    by (simp add: parseTcpRosHeader_def mismatchedPubHeader_def)
qed

text \<open>
  Claim C5, on the code. On a connection that is not initialized, a frame that parses as
  a header without error field (whether its type and md5sum match the subscriber's or not)
  makes \<^verbatim>\<open>_handleMessage\<close> throw the \<^verbatim>\<open>TypeError\<close> of the call of
  \<^verbatim>\<open>TcprosUtils.validatePubHeader\<close>: the validation is not applied and the connection
  is not ended with an error. Whatever frames arrive on such a connection, handling them,
  up to the end or to an exception, leaves the connection uninitialized, delivers no
  message to the user callback, and never ends the socket.
\<close>

theorem handshake_throws_before_validation:
  fixes sub :: "'a Subscriber" and spinner :: "(string, 'c, buffer) GlobalSpinner"
  shows
  "(\<not> initialized pc \<and> parseTcpRosHeader msg = Inr hdr \<and> \<not> truthy (hdr ''error'')
     \<longrightarrow> Subscriber_handleMessage msg (pc, sub, spinner)
           = Inl (TypeError ''TcprosUtils.validatePubHeader is not a function''))
   \<and> (\<not> initialized pc
     \<longrightarrow> fst (handleMessages msgs (pc, sub, spinner)) = (pc, sub, spinner)
       \<and> filter isDeliver (fst (snd (handleMessages msgs (pc, sub, spinner)))) = []
       \<and> filter isSockEnd (fst (snd (handleMessages msgs (pc, sub, spinner)))) = [])"
proof (intro conjI impI)
  assume "\<not> initialized pc \<and> parseTcpRosHeader msg = Inr hdr \<and> \<not> truthy (hdr ''error'')"
  then show "Subscriber_handleMessage msg (pc, sub, spinner)
           = Inl (TypeError ''TcprosUtils.validatePubHeader is not a function'')"
    by (simp add: handleMessage_uninitialized)
next
  assume "\<not> initialized pc"
  then show "fst (handleMessages msgs (pc, sub, spinner)) = (pc, sub, spinner)"
    and "filter isDeliver (fst (snd (handleMessages msgs (pc, sub, spinner)))) = []"
    and "filter isSockEnd (fst (snd (handleMessages msgs (pc, sub, spinner)))) = []"
    using handleMessages_uninitialized[of pc msgs sub spinner] by blast+
qed

text \<open>
  The subscriber of \<^verbatim>\<open>/chatter\<close> receives the header of a publisher with the md5sum
  0123 and then a data frame: the header makes \<^verbatim>\<open>_handleMessage\<close> throw, the socket
  is not ended, and nothing is delivered.
\<close>

theorem handshake_throws_before_validation_witness:
  "Subscriber_handleMessage mismatchedPubHeader
       (\<lparr>clientName = ''10.0.0.1:4000'', initialized = False\<rparr>, listener,
        (new_GlobalSpinner :: (string, string, buffer) GlobalSpinner))
     = Inl (TypeError ''TcprosUtils.validatePubHeader is not a function'')
   \<and> handleMessages [mismatchedPubHeader, encString ''hi'']
       (\<lparr>clientName = ''10.0.0.1:4000'', initialized = False\<rparr>, listener,
        (new_GlobalSpinner :: (string, string, buffer) GlobalSpinner))
     = ((\<lparr>clientName = ''10.0.0.1:4000'', initialized = False\<rparr>, listener, new_GlobalSpinner),
        [], Some (TypeError ''TcprosUtils.validatePubHeader is not a function''))"
proof -
  let ?pc = "\<lparr>clientName = ''10.0.0.1:4000'', initialized = False\<rparr>"
  let ?sp = "new_GlobalSpinner :: (string, string, buffer) GlobalSpinner"
  let ?hdr = "[''callerid'' \<mapsto> ''/talker'', ''md5sum'' \<mapsto> ''0123'',
               ''type'' \<mapsto> ''std_msgs/String'', ''latching'' \<mapsto> ''1'']"
  have hyp: "\<not> initialized ?pc \<and> parseTcpRosHeader mismatchedPubHeader = Inr ?hdr
      \<and> \<not> truthy (?hdr ''error'')"
    by (simp add: parse_mismatchedPubHeader truthy_def)
  note inst = handshake_throws_before_validation[where pc = ?pc and msg = mismatchedPubHeader
         and hdr = ?hdr and sub = listener and spinner = ?sp
         and msgs = "[mismatchedPubHeader, encString ''hi'']"]
  have step: "Subscriber_handleMessage mismatchedPubHeader (?pc, listener, ?sp)
           = Inl (TypeError ''TcprosUtils.validatePubHeader is not a function'')"
    using inst[THEN conjunct1] hyp by blast
  then show ?thesis by simp
qed

end
